theory Spec2Isabelle
  imports Complex_Main
begin

section \<open>Data model\<close>

text \<open>
  The engine lives in two places of the repository: the class \<open>AuctionService\<close>
  (\<open>services/auctionService.js\<close>, reached through the socket events) and the handler of
  \<open>POST /api/bids\<close> (\<open>backend/routes/bids.js\<close>).  Both work on the same MySQL tables.

  Tables are lists of rows in insertion order; a row is a record holding the columns the
  engine reads or writes, each with the value MySQL stores: \<open>BIGINT\<close> and \<open>INT\<close> are
  integers, \<open>DECIMAL(5,2)\<close> is a rational, \<open>TIMESTAMP\<close> is a number of milliseconds, a
  nullable column is an option.  What JavaScript receives for a column is another matter
  and is the subject of the next section.  The clock is an argument \<open>now\<close>: every reading
  of \<open>new Date()\<close>, \<open>Date.now()\<close> and SQL \<open>NOW()\<close> inside one call is that one instant.
\<close>

datatype auction_status = Scheduled | Live | Ended | Cancelled | Suspended

datatype auction_result = No_bids | Reserve_not_met | Sold | Withdrawn

datatype bid_type = Normal | Proxy | Auto

datatype user_status = Active | SuspendedUser | Banned | Pending

record auction =
  a_id :: nat
  property_id :: nat
  start_time :: int
  end_time :: int
  extended_end_time :: "int option"
  starting_price :: int
  reserve_price :: int
  current_price :: int
  bid_increment_percentage :: rat
  current_bid_count :: nat
  status :: auction_status
  result :: "auction_result option"
  winning_bid_id :: "nat option"
  auto_extend_enabled :: bool
  auto_extend_minutes :: int
  ended_at :: "int option"

record bid =
  b_id :: nat
  bid_auction_id :: nat
  bid_user_id :: nat
  bid_amount :: int
  max_amount :: int
  bid_type :: bid_type
  is_winning :: bool
  created_at :: int

record user =
  user_status :: user_status
  identity_verified :: bool

record property =
  owner_id :: nat
  p_starting_price :: int
  p_reserve_price :: int

record transaction_row =
  txn_user_id :: nat
  txn_auction_id :: nat
  txn_bid_id :: nat
  txn_amount :: int
  commission_amount :: int
  total_amount :: int

section \<open>JavaScript values and the columns of MySQL\<close>

text \<open>
  \<open>config/database.js\<close> creates the connection pool with \<open>supportBigNumbers: true\<close> and
  \<open>bigNumberStrings: true\<close>.  With these options the driver hands every \<open>BIGINT\<close> and
  \<open>DECIMAL\<close> column to JavaScript as a string of decimal digits, and an \<open>INT\<close> column as
  a number.  So \<open>auction.current_price\<close>, \<open>auction.reserve_price\<close>,
  \<open>auction.bid_increment_percentage\<close> and \<open>winningBid.amount\<close> are strings where the
  service computes with them, and the operators \<open>+\<close>, \<open>*\<close>, \<open>/\<close>, \<open><\<close> and \<open>>=\<close> act on
  them as JavaScript defines: \<open>*\<close> and \<open>/\<close> convert to numbers, \<open>+\<close> with a string operand
  concatenates, a comparison of two strings is lexicographic and any other comparison is
  numeric.

  A JavaScript number is an IEEE 754 double.  The finite doubles are rationals, and the
  result of an arithmetic operation is the exact result rounded to the nearest double, ties
  to the even significand.  The magnitudes of this program (a \<open>BIGINT\<close> times a percentage)
  are far from the overflow threshold, so infinities are left out; \<open>NaN\<close> is \<open>None\<close>.
\<close>

definition round_half_even :: "rat \<Rightarrow> int" where
  "round_half_even x =
     (let f = \<lfloor>x\<rfloor>; r = x - of_int f
      in if r < 1 / 2 then f else if 1 / 2 < r then f + 1 else if even f then f else f + 1)"

text \<open>The number of binary digits of a positive integer.\<close>

function bit_length :: "int \<Rightarrow> int" where
  "bit_length n = (if n \<le> 0 then 0 else 1 + bit_length (n div 2))"
  by pat_completeness auto
termination
  by (relation "measure nat") auto

declare bit_length.simps [simp del]

definition pow2 :: "int \<Rightarrow> rat" where
  "pow2 k = (if 0 \<le> k then 2 ^ nat k else 1 / 2 ^ nat (- k))"

text \<open>The binary exponent of a positive rational: the \<open>e\<close> with \<open>2 ^ e \<le> x < 2 ^ (e + 1)\<close>.\<close>

definition exponent2 :: "rat \<Rightarrow> int" where
  "exponent2 x =
     (if 1 \<le> x then bit_length \<lfloor>x\<rfloor> - 1 else - bit_length (\<lceil>1 / x\<rceil> - 1))"

text \<open>The nearest double: 53 significant bits, the exponent not below that of the
  subnormal numbers.\<close>

definition round_double :: "rat \<Rightarrow> rat" where
  "round_double x =
     (if x = 0 then 0
      else (let ulp = pow2 (max (exponent2 \<bar>x\<bar>) (- 1022) - 52)
            in of_int (round_half_even (x / ulp)) * ulp))"

type_synonym js_number = "rat option"

definition js_times :: "js_number \<Rightarrow> js_number \<Rightarrow> js_number" where
  "js_times a b =
     (case a of None \<Rightarrow> None
      | Some x \<Rightarrow> (case b of None \<Rightarrow> None | Some y \<Rightarrow> Some (round_double (x * y))))"

text \<open>Division; the program divides by the literal 100 only, so a zero divisor (which
  gives an infinity or \<open>NaN\<close>) does not arise and is \<open>None\<close> here.\<close>

definition js_divide :: "js_number \<Rightarrow> js_number \<Rightarrow> js_number" where
  "js_divide a b =
     (case a of None \<Rightarrow> None
      | Some x \<Rightarrow>
          (case b of None \<Rightarrow> None
           | Some y \<Rightarrow> if y = 0 then None else Some (round_double (x / y))))"

definition math_ceil :: "js_number \<Rightarrow> int option" where
  "math_ceil a = map_option ceiling a"

subsection \<open>Strings\<close>

definition digit_value :: "char \<Rightarrow> int option" where
  "digit_value c = map_of (zip ''0123456789'' [0, 1, 2, 3, 4, 5, 6, 7, 8, 9]) c"

fun digits_value :: "int \<Rightarrow> string \<Rightarrow> int option" where
  "digits_value acc [] = Some acc"
| "digits_value acc (c # cs) =
     (case digit_value c of None \<Rightarrow> None | Some v \<Rightarrow> digits_value (10 * acc + v) cs)"

text \<open>An unsigned decimal literal: digits, optionally a point and digits, at least one
  digit in all.\<close>

definition unsigned_decimal :: "string \<Rightarrow> rat option" where
  "unsigned_decimal s =
     (let whole = takeWhile (\<lambda>c. c \<noteq> CHR ''.'') s;
          frac = drop 1 (dropWhile (\<lambda>c. c \<noteq> CHR ''.'') s)
      in if whole = [] \<and> frac = [] then None
         else (case digits_value 0 whole of
                 None \<Rightarrow> None
               | Some w \<Rightarrow>
                   (case digits_value 0 frac of
                      None \<Rightarrow> None
                    | Some f \<Rightarrow> Some (of_int w + of_int f / 10 ^ length frac))))"

text \<open>\<open>ToNumber\<close> of a string, for the strings that occur here: what the driver renders
  for a \<open>BIGINT\<close> or \<open>DECIMAL\<close> column and the concatenation of two such renderings.  They
  consist of digits, the sign \<open>-\<close> and the point; the empty string is 0, a string that is
  not a signed decimal literal is \<open>NaN\<close>.  White space, exponents, hexadecimal literals and
  \<open>Infinity\<close> are not looked for.\<close>

definition to_number :: "string \<Rightarrow> js_number" where
  "to_number s =
     (case s of
        [] \<Rightarrow> Some 0
      | c # cs \<Rightarrow>
          map_option round_double
            (if c = CHR ''-'' then map_option uminus (unsigned_decimal cs)
             else if c = CHR ''+'' then unsigned_decimal cs
             else unsigned_decimal s))"

text \<open>The decimal digits of a natural number and \<open>ToString\<close> of an integer-valued number
  (below \<open>10 ^ 21\<close> in magnitude, from where JavaScript writes an exponent).\<close>

function digits :: "int \<Rightarrow> string" where
  "digits n =
     (if n < 10 then [''0123456789'' ! nat n]
      else digits (n div 10) @ [''0123456789'' ! nat (n mod 10)])"
  by pat_completeness auto
termination
  by (relation "measure nat") auto

declare digits.simps [simp del]

definition show_int :: "int \<Rightarrow> string" where
  "show_int n = (if n < 0 then CHR ''-'' # digits (- n) else digits n)"

definition number_string :: "int option \<Rightarrow> string" where
  "number_string n = (case n of None \<Rightarrow> ''NaN'' | Some k \<Rightarrow> show_int k)"

text \<open>The order of strings under \<open><\<close>: by code units, a proper prefix first.\<close>

fun str_less :: "string \<Rightarrow> string \<Rightarrow> bool" where
  "str_less [] [] = False"
| "str_less [] (y # ys) = True"
| "str_less (x # xs) [] = False"
| "str_less (x # xs) (y # ys) =
     (if x = y then str_less xs ys else (of_char x :: nat) < of_char y)"

subsection \<open>Columns and parameters\<close>

text \<open>What the driver renders for a \<open>BIGINT\<close> and for a \<open>DECIMAL(5,2)\<close> column.\<close>

definition bigint_column :: "int \<Rightarrow> string" where
  "bigint_column n = show_int n"

definition decimal_column :: "rat \<Rightarrow> string" where
  "decimal_column r =
     (let h = \<lfloor>\<bar>r\<bar> * 100\<rfloor>
      in (if r < 0 then ''-'' else '''') @ show_int (h div 100) @ ''.'' @
         digits (h mod 100 div 10) @ digits (h mod 10))"

text \<open>
  A value a client sends for an amount is a number or a string (the socket event carries
  any JSON, and a form field is a string; other JSON values are not considered).  Bound
  to a \<open>BIGINT\<close> column such a value is converted by MySQL, in strict mode with an error
  when it does not fit.  A number, which the driver sends as a double, is rounded to the
  nearest integer, ties to even.  A string must be a numeric literal, blanks around it
  allowed: a sign, digits with an optional fraction, an optional exponent; its value is
  rounded to the nearest integer, ties away from zero.  In both cases the integer must
  be in the range of \<open>BIGINT\<close>.
\<close>

datatype js_value = JS_number rat | JS_string string

definition in_bigint :: "int \<Rightarrow> bool" where
  "in_bigint n = (- 9223372036854775808 \<le> n \<and> n \<le> 9223372036854775807)"

definition is_blank :: "char \<Rightarrow> bool" where
  "is_blank c = (c = CHR '' '' \<or> c = CHR 0x09)"

definition trim :: "string \<Rightarrow> string" where
  "trim s = rev (dropWhile is_blank (rev (dropWhile is_blank s)))"

definition split_sign :: "string \<Rightarrow> bool \<times> string" where
  "split_sign s =
     (case s of
        [] \<Rightarrow> (False, [])
      | c # cs \<Rightarrow>
          if c = CHR ''-'' then (True, cs) else if c = CHR ''+'' then (False, cs) else (False, s))"

definition is_exponent_mark :: "char \<Rightarrow> bool" where
  "is_exponent_mark c = (c = CHR ''e'' \<or> c = CHR ''E'')"

definition numeric_literal :: "string \<Rightarrow> rat option" where
  "numeric_literal s =
     (let (negative, body) = split_sign (trim s);
          mantissa = takeWhile (\<lambda>c. \<not> is_exponent_mark c) body;
          exponent = dropWhile (\<lambda>c. \<not> is_exponent_mark c) body
      in case unsigned_decimal mantissa of
           None \<Rightarrow> None
         | Some m \<Rightarrow>
             (case (if exponent = [] then Some 1
                    else (let (down, ds) = split_sign (drop 1 exponent)
                          in if ds = [] then None
                             else (case digits_value 0 ds of
                                     None \<Rightarrow> None
                                   | Some k \<Rightarrow>
                                       Some (if down then 1 / 10 ^ nat k else 10 ^ nat k)))) of
                None \<Rightarrow> None
              | Some scale \<Rightarrow> Some ((if negative then - m else m) * scale)))"

definition round_half_away :: "rat \<Rightarrow> int" where
  "round_half_away x = (if x < 0 then - \<lfloor>- x + 1 / 2\<rfloor> else \<lfloor>x + 1 / 2\<rfloor>)"

definition bigint_param :: "js_value \<Rightarrow> int option" where
  "bigint_param v =
     (case (case v of JS_number r \<Rightarrow> Some (round_half_even r)
                    | JS_string s \<Rightarrow> map_option round_half_away (numeric_literal s)) of
        None \<Rightarrow> None
      | Some n \<Rightarrow> if in_bigint n then Some n else None)"

text \<open>\<open>amount < minBid\<close> where \<open>minBid\<close> is a string: lexicographic when the amount is a
  string too, numeric otherwise (false when the string is not a number).\<close>

definition js_less :: "js_value \<Rightarrow> string \<Rightarrow> bool" where
  "js_less v s =
     (case v of
        JS_string t \<Rightarrow> str_less t s
      | JS_number r \<Rightarrow> (case to_number s of None \<Rightarrow> False | Some m \<Rightarrow> r < m))"

section \<open>The database and the socket channel\<close>

text \<open>
  What the service sends to the socket rooms (\<open>io.to(...).emit\<close>): the event name and
  the fields that identify it, as JavaScript has them (the amount of a bid as the client
  sent it, the price of an ended auction as the driver rendered it).
\<close>

datatype event =
    Auction_started nat int
  | Auction_ended nat auction_result "nat option" string
  | Auction_extended nat int int
  | Bid_update nat nat nat js_value bid_type

text \<open>
  \<open>users\<close> and \<open>properties\<close> are only looked up by primary key, so they are partial maps;
  \<open>next_bid_id\<close> is the \<open>AUTO_INCREMENT\<close> counter of \<open>bids\<close>.  The table \<open>notifications\<close>
  is written and never read back by the engine; it is left out, and so are the columns
  that only describe a row (titles, addresses, \<open>updated_at\<close>).
\<close>

record db =
  auctions :: "auction list"
  properties :: "nat \<rightharpoonup> property"
  users :: "nat \<rightharpoonup> user"
  bids :: "bid list"
  next_bid_id :: nat
  transactions :: "transaction_row list"
  emitted :: "event list"

datatype error =
    Auction_is_not_active
  | Bid_must_be_at_least string
  | User_not_found
  | Incorrect_integer_value
  | Duplicate_entry
  | Unknown_column string
  | Validation_errors
  | Server_error
  | Maximum_amount_must_be_greater_than_0

text \<open>The schema declares \<open>UNIQUE KEY unique_winning_bid (auction_id, is_winning)\<close> on
  \<open>bids\<close>: no two rows of one auction carry the same flag.  A statement that would leave
  the table otherwise fails with \<open>ER_DUP_ENTRY\<close>.\<close>

definition unique_winning_bid :: "db \<Rightarrow> bool" where
  "unique_winning_bid d = distinct (map (\<lambda>b. (bid_auction_id b, is_winning b)) (bids d))"

section \<open>Queries\<close>

text \<open>\<open>ORDER BY key DESC LIMIT 1\<close>; among rows with equal keys the earliest of the table
  is taken (MySQL leaves that choice open).\<close>

fun top_by :: "('a \<Rightarrow> int) \<Rightarrow> 'a list \<Rightarrow> 'a option" where
  "top_by f [] = None"
| "top_by f (x # xs) =
     (case top_by f xs of
        None \<Rightarrow> Some x
      | Some y \<Rightarrow> if f x < f y then Some y else Some x)"

definition joins_owner :: "db \<Rightarrow> auction \<Rightarrow> bool" where
  "joins_owner d a =
     (case properties d (property_id a) of
        None \<Rightarrow> False
      | Some p \<Rightarrow> users d (owner_id p) \<noteq> None)"

definition getAuctionDetails :: "db \<Rightarrow> nat \<Rightarrow> auction option" where
  "getAuctionDetails d auctionId =
     find (\<lambda>a. a_id a = auctionId \<and> joins_owner d a) (auctions d)"

definition getWinningBid :: "db \<Rightarrow> nat \<Rightarrow> bid option" where
  "getWinningBid d auctionId =
     top_by created_at
       (filter (\<lambda>b. bid_auction_id b = auctionId \<and> is_winning b \<and> users d (bid_user_id b) \<noteq> None)
          (bids d))"

definition getUserDetails :: "db \<Rightarrow> nat \<Rightarrow> user option" where
  "getUserDetails d userId =
     (case users d userId of
        None \<Rightarrow> None
      | Some u \<Rightarrow> if user_status u = Active then Some u else None)"

definition getBidDetails :: "db \<Rightarrow> nat \<Rightarrow> bid option" where
  "getBidDetails d bidId = find (\<lambda>b. b_id b = bidId) (bids d)"

definition effectiveEndTime :: "auction \<Rightarrow> int" where
  "effectiveEndTime a = (case extended_end_time a of Some t \<Rightarrow> t | None \<Rightarrow> end_time a)"

section \<open>The statements of the bid transaction\<close>

definition insert_bid :: "int \<Rightarrow> nat \<Rightarrow> nat \<Rightarrow> int \<Rightarrow> int \<Rightarrow> bid_type \<Rightarrow> db \<Rightarrow> nat \<times> db" where
  "insert_bid now auctionId userId amount maxAmount bidType d =
     (next_bid_id d,
      d\<lparr>bids := bids d @
           [\<lparr>b_id = next_bid_id d, bid_auction_id = auctionId, bid_user_id = userId,
             bid_amount = amount, max_amount = maxAmount, bid_type = bidType,
             is_winning = False, created_at = now\<rparr>],
        next_bid_id := Suc (next_bid_id d)\<rparr>)"

definition update_price_and_count :: "int \<Rightarrow> nat \<Rightarrow> db \<Rightarrow> db" where
  "update_price_and_count amount auctionId d =
     d\<lparr>auctions :=
         map (\<lambda>a. if a_id a = auctionId
                  then a\<lparr>current_price := amount, current_bid_count := Suc (current_bid_count a)\<rparr>
                  else a)
           (auctions d)\<rparr>"

definition mark_previous_not_winning :: "nat \<Rightarrow> nat \<Rightarrow> db \<Rightarrow> db" where
  "mark_previous_not_winning auctionId bidId d =
     d\<lparr>bids :=
         map (\<lambda>b. if bid_auction_id b = auctionId \<and> b_id b \<noteq> bidId
                  then b\<lparr>is_winning := False\<rparr> else b)
           (bids d)\<rparr>"

definition mark_new_winning :: "nat \<Rightarrow> db \<Rightarrow> db" where
  "mark_new_winning bidId d =
     d\<lparr>bids := map (\<lambda>b. if b_id b = bidId then b\<lparr>is_winning := True\<rparr> else b) (bids d)\<rparr>"

definition auto_extend :: "int \<Rightarrow> auction \<Rightarrow> nat \<Rightarrow> db \<Rightarrow> db" where
  "auto_extend now auction auctionId d =
     (if auto_extend_enabled auction then
        (let timeRemaining = effectiveEndTime auction - now;
             extendThreshold = auto_extend_minutes auction * 60 * 1000
         in if timeRemaining < extendThreshold then
              (let newEndTime = now + extendThreshold
               in d\<lparr>auctions :=
                      map (\<lambda>a. if a_id a = auctionId
                               then a\<lparr>extended_end_time := Some newEndTime\<rparr> else a)
                        (auctions d),
                    emitted := emitted d @
                      [Auction_extended auctionId newEndTime (auto_extend_minutes auction)]\<rparr>)
            else d)
      else d)"

section \<open>AuctionService\<close>

text \<open>\<open>calculateMinBid(auction.current_price, auction.bid_increment_percentage)\<close>: both
  arguments are strings.  The product converts them to numbers; the sum of the string
  \<open>currentPrice\<close> and the number \<open>increment\<close> is their concatenation.\<close>

definition calculateMinBid :: "string \<Rightarrow> string \<Rightarrow> string" where
  "calculateMinBid currentPrice incrementPercentage =
     (let increment =
            math_ceil (js_times (to_number currentPrice)
                         (js_divide (to_number incrementPercentage) (Some 100)))
      in currentPrice @ number_string increment)"

text \<open>\<open>calculateNextBid\<close> is called by the resolver with a number; \<open>0.05\<close> is the double
  nearest to 5/100.\<close>

definition calculateNextBid :: "rat \<Rightarrow> rat" where
  "calculateNextBid currentPrice =
     round_double
       (currentPrice + of_int \<lceil>round_double (currentPrice * round_double (5 / 100))\<rceil>)"

text \<open>The argument of \<open>placeBid\<close>: the fields of \<open>bidData\<close>, the amount as the client
  sent it, \<open>None\<close> for a field left to its default.\<close>

record bid_data =
  bd_auctionId :: nat
  bd_userId :: nat
  bd_amount :: js_value
  bd_bidType :: "bid_type option"
  bd_maxAmount :: "int option"

text \<open>
  The transaction of \<open>placeBid\<close>: the four statements and the extension, each statement on
  \<open>bids\<close> checked against the unique key.  A failing statement throws, the \<open>catch\<close> rolls
  the transaction back and rethrows: nothing is written.  The amount is bound to the
  \<open>BIGINT\<close> columns \<open>bids.amount\<close> and \<open>auctions.current_price\<close>.
\<close>

definition bid_statements ::
  "int \<Rightarrow> auction \<Rightarrow> nat \<Rightarrow> nat \<Rightarrow> js_value \<Rightarrow> int \<Rightarrow> bid_type \<Rightarrow> db \<Rightarrow> error + nat \<times> db" where
  "bid_statements now auction auctionId userId amount maxAmount bidType d =
     (case bigint_param amount of
        None \<Rightarrow> Inl Incorrect_integer_value
      | Some v \<Rightarrow>
          (let (bidId, d1) = insert_bid now auctionId userId v maxAmount bidType d
           in if \<not> unique_winning_bid d1 then Inl Duplicate_entry
              else
                (let d2 = update_price_and_count v auctionId d1;
                     d3 = mark_previous_not_winning auctionId bidId d2
                 in if \<not> unique_winning_bid d3 then Inl Duplicate_entry
                    else
                      (let d4 = mark_new_winning bidId d3
                       in if \<not> unique_winning_bid d4 then Inl Duplicate_entry
                          else
                            (let d5 = auto_extend now auction auctionId d4
                             in Inr (bidId,
                                     d5\<lparr>emitted := emitted d5 @
                                          [Bid_update auctionId bidId userId amount
                                             bidType]\<rparr>))))))"

text \<open>
  \<open>placeBid\<close>, up to the \<open>bid_update\<close> event: \<open>Inl e\<close> when it throws \<open>e\<close> with no row
  written, \<open>Inr (bidId, d')\<close> when the transaction is committed, with the identifier of
  the new bid and the state after it.
\<close>

definition placeBid :: "int \<Rightarrow> bid_data \<Rightarrow> db \<Rightarrow> error + nat \<times> db" where
  "placeBid now bidData d =
     (let auctionId = bd_auctionId bidData; userId = bd_userId bidData;
          amount = bd_amount bidData;
          bidType = (case bd_bidType bidData of None \<Rightarrow> Normal | Some t \<Rightarrow> t);
          maxAmount = (case bd_maxAmount bidData of None \<Rightarrow> 0 | Some m \<Rightarrow> m)
      in case getAuctionDetails d auctionId of
           None \<Rightarrow> Inl Auction_is_not_active
         | Some auction \<Rightarrow>
             if status auction \<noteq> Live then Inl Auction_is_not_active
             else
               (let minBid = calculateMinBid (bigint_column (current_price auction))
                               (decimal_column (bid_increment_percentage auction))
                in if js_less amount minBid then Inl (Bid_must_be_at_least minBid)
                   else
                     (case getUserDetails d userId of
                        None \<Rightarrow> Inl User_not_found
                      | Some user \<Rightarrow>
                          bid_statements now auction auctionId userId amount maxAmount
                            bidType d)))"

text \<open>The state after a refusal: the tables as they were.  When the transaction was
  rolled back on the unique key its \<open>INSERT\<close> had taken an identifier, and InnoDB does
  not give an \<open>AUTO_INCREMENT\<close> value back.\<close>

definition after_refusal :: "error \<Rightarrow> db \<Rightarrow> db" where
  "after_refusal e d =
     (if e = Duplicate_entry then d\<lparr>next_bid_id := Suc (next_bid_id d)\<rparr> else d)"

text \<open>
  After the commit and the event \<open>placeBid\<close> writes its audit log with
  \<open>INSERT INTO audit_logs (user_id, action, entity_type, entity_id, data)\<close>.  The table
  \<open>audit_logs\<close> of the schema has no column \<open>data\<close>, so the statement fails, the \<open>catch\<close>
  rethrows and the promise of \<open>placeBid\<close> is rejected although the bid is committed.
  \<open>placeBid_promise\<close> is what the caller of \<open>placeBid\<close> receives.
\<close>

definition audit_logs_columns :: "string list" where
  "audit_logs_columns =
     [''id'', ''user_id'', ''action'', ''entity_type'', ''entity_id'', ''old_values'',
      ''new_values'', ''ip_address'', ''user_agent'', ''created_at'']"

definition insert_audit_log :: "error + unit" where
  "insert_audit_log =
     (case find (\<lambda>c. c \<notin> set audit_logs_columns)
             [''user_id'', ''action'', ''entity_type'', ''entity_id'', ''data''] of
        None \<Rightarrow> Inr ()
      | Some c \<Rightarrow> Inl (Unknown_column c))"

definition placeBid_promise :: "int \<Rightarrow> bid_data \<Rightarrow> db \<Rightarrow> error + nat" where
  "placeBid_promise now bidData d =
     (case placeBid now bidData d of
        Inl e \<Rightarrow> Inl e
      | Inr (bidId, d') \<Rightarrow> (case insert_audit_log of Inl e \<Rightarrow> Inl e | Inr u \<Rightarrow> Inr bidId))"

definition startAuction :: "int \<Rightarrow> nat \<Rightarrow> db \<Rightarrow> db" where
  "startAuction now auctionId d =
     d\<lparr>auctions :=
         map (\<lambda>a. if a_id a = auctionId then a\<lparr>status := Live, start_time := now\<rparr> else a)
           (auctions d),
       emitted := emitted d @ [Auction_started auctionId now]\<rparr>"

text \<open>\<open>parseFloat(process.env.COMMISSION_PERCENTAGE) || 5\<close>: the environment variable is
  an argument, \<open>None\<close> when it is unset or not a number.\<close>

definition commissionPercentage :: "rat option \<Rightarrow> rat" where
  "commissionPercentage env = (case env of None \<Rightarrow> 5 | Some v \<Rightarrow> if v = 0 then 5 else v)"

text \<open>\<open>createTransaction\<close>: the commission is the ceiling of a product of doubles, the
  total is the concatenation of the string \<open>auction.current_price\<close> and the commission.
  The three values are bound to \<open>BIGINT\<close> columns; when one does not fit the \<open>INSERT\<close>
  fails, the \<open>catch\<close> logs it and no row is written.\<close>

definition createTransaction :: "rat option \<Rightarrow> nat \<Rightarrow> nat \<Rightarrow> db \<Rightarrow> db" where
  "createTransaction env auctionId bidId d =
     (case getAuctionDetails d auctionId of
        None \<Rightarrow> d
      | Some auction \<Rightarrow>
          (case getBidDetails d bidId of
             None \<Rightarrow> d
           | Some bid \<Rightarrow>
               (let price = bigint_column (current_price auction);
                    commissionAmount =
                      math_ceil (js_times (to_number price)
                                   (Some (round_double (commissionPercentage env / 100))));
                    totalAmount = price @ number_string commissionAmount
                in case bigint_param (JS_string price) of
                     None \<Rightarrow> d
                   | Some amount \<Rightarrow>
                       (case commissionAmount of
                          None \<Rightarrow> d
                        | Some c \<Rightarrow>
                            (case bigint_param (JS_number (of_int c)) of
                               None \<Rightarrow> d
                             | Some commission \<Rightarrow>
                                 (case bigint_param (JS_string totalAmount) of
                                    None \<Rightarrow> d
                                  | Some totalValue \<Rightarrow>
                                      d\<lparr>transactions := transactions d @
                                          [\<lparr>txn_user_id = bid_user_id bid,
                                            txn_auction_id = auctionId,
                                            txn_bid_id = bidId, txn_amount = amount,
                                            commission_amount = commission,
                                            total_amount = totalValue\<rparr>]\<rparr>))))))"

text \<open>\<open>endAuction\<close>: the result and the winning bid, then the \<open>UPDATE\<close>, the event and the
  settlement row.  \<open>winningBid.amount >= auction.reserve_price\<close> compares two strings.
  When \<open>getAuctionDetails\<close> yields \<open>null\<close> the first property access throws, the \<open>catch\<close>
  logs it and nothing has been written.\<close>

definition end_result :: "db \<Rightarrow> nat \<Rightarrow> auction \<Rightarrow> auction_result \<times> nat option" where
  "end_result d auctionId auction =
     (if current_bid_count auction > 0 then
        (case getWinningBid d auctionId of
           None \<Rightarrow> (Reserve_not_met, None)
         | Some winningBid \<Rightarrow>
             if \<not> str_less (bigint_column (bid_amount winningBid))
                    (bigint_column (reserve_price auction))
             then (Sold, Some (b_id winningBid))
             else (Reserve_not_met, None))
      else (No_bids, None))"

definition update_ended :: "int \<Rightarrow> nat \<Rightarrow> auction_result \<Rightarrow> nat option \<Rightarrow> db \<Rightarrow> db" where
  "update_ended now auctionId result_v winningBidId d =
     d\<lparr>auctions :=
         map (\<lambda>a. if a_id a = auctionId
                  then a\<lparr>status := Ended, result := Some result_v,
                         winning_bid_id := winningBidId, ended_at := Some now\<rparr>
                  else a)
           (auctions d)\<rparr>"

definition endAuction :: "rat option \<Rightarrow> int \<Rightarrow> nat \<Rightarrow> db \<Rightarrow> db" where
  "endAuction env now auctionId d =
     (case getAuctionDetails d auctionId of
        None \<Rightarrow> d
      | Some auction \<Rightarrow>
          (let (result_v, winningBidId) = end_result d auctionId auction;
               d1 = update_ended now auctionId result_v winningBidId d;
               d2 = d1\<lparr>emitted := emitted d1 @
                         [Auction_ended auctionId result_v winningBidId
                            (bigint_column (current_price auction))]\<rparr>
           in case winningBidId of
                Some bidId \<Rightarrow>
                  if result_v = Sold \<and> bidId \<noteq> 0
                  then createTransaction env auctionId bidId d2 else d2
              | None \<Rightarrow> d2))"

definition check_one :: "rat option \<Rightarrow> int \<Rightarrow> auction \<Rightarrow> db \<Rightarrow> db" where
  "check_one env now auction d =
     (let startTime = start_time auction;
          endTime = effectiveEndTime auction;
          d1 = (if status auction = Scheduled \<and> now \<ge> startTime
                then startAuction now (a_id auction) d else d)
      in if status auction = Live \<and> now \<ge> endTime
         then endAuction env now (a_id auction) d1 else d1)"

definition checkAuctionStatus :: "rat option \<Rightarrow> int \<Rightarrow> db \<Rightarrow> db" where
  "checkAuctionStatus env now d =
     (let activeAuctions = filter (\<lambda>a. status a = Scheduled \<or> status a = Live) (auctions d)
      in fold (check_one env now) activeAuctions d)"

subsection \<open>Auto-bid agents\<close>

text \<open>The agents live in the service's \<open>Map\<close> \<open>autoBids\<close>, keyed by the string
  \<open>auto_${auctionId}_${userId}\<close>; a \<open>Map\<close> keeps its keys in insertion order.  Ceilings
  and amounts are numbers.\<close>

record auto_bid =
  ab_auctionId :: nat
  ab_userId :: nat
  ab_maxAmount :: rat
  ab_currentBid :: rat
  ab_active :: bool

type_synonym auto_bids = "(string \<times> auto_bid) list"

definition autoBidKey :: "nat \<Rightarrow> nat \<Rightarrow> string" where
  "autoBidKey auctionId userId =
     ''auto_'' @ show_int (int auctionId) @ ''_'' @ show_int (int userId)"

fun startsWith :: "string \<Rightarrow> string \<Rightarrow> bool" where
  "startsWith s [] = True"
| "startsWith [] (c # cs) = False"
| "startsWith (x # xs) (c # cs) = (x = c \<and> startsWith xs cs)"

fun map_set :: "'k \<Rightarrow> 'v \<Rightarrow> ('k \<times> 'v) list \<Rightarrow> ('k \<times> 'v) list" where
  "map_set k v [] = [(k, v)]"
| "map_set k v ((k', v') # m) = (if k' = k then (k, v) # m else (k', v') # map_set k v m)"

record auto_bid_data =
  abd_auctionId :: nat
  abd_userId :: nat
  abd_maxAmount :: rat

definition setupAutoBid :: "auto_bid_data \<Rightarrow> auto_bids \<Rightarrow> error + auto_bids" where
  "setupAutoBid data autoBids =
     (if abd_maxAmount data \<le> 0 then Inl Maximum_amount_must_be_greater_than_0
      else
        Inr (map_set (autoBidKey (abd_auctionId data) (abd_userId data))
               \<lparr>ab_auctionId = abd_auctionId data, ab_userId = abd_userId data,
                 ab_maxAmount = abd_maxAmount data, ab_currentBid = 0, ab_active = True\<rparr>
               autoBids))"

text \<open>The loop of \<open>processAutoBids\<close> over the sorted snapshot.  A rejected promise of
  \<open>placeBid\<close> leaves the loop through the enclosing \<open>catch\<close>, which only logs: after a
  refusal nothing is written, after a commit followed by the failing audit log the bid
  stays and the agent's \<open>currentBid\<close> is not updated.\<close>

fun auto_bid_loop ::
  "int \<Rightarrow> nat \<Rightarrow> (string \<times> auto_bid) list \<Rightarrow> rat \<Rightarrow> auto_bids \<Rightarrow> db \<Rightarrow> auto_bids \<times> db" where
  "auto_bid_loop now auctionId [] newBidAmount autoBids d = (autoBids, d)"
| "auto_bid_loop now auctionId ((key, autoBid) # rest) newBidAmount autoBids d =
     (let nextBidAmount = calculateNextBid newBidAmount
      in if nextBidAmount \<le> ab_maxAmount autoBid then
           (case placeBid now
                   \<lparr>bd_auctionId = auctionId, bd_userId = ab_userId autoBid,
                     bd_amount = JS_number nextBidAmount, bd_bidType = Some Auto,
                     bd_maxAmount = None\<rparr> d of
              Inl e \<Rightarrow> (autoBids, after_refusal e d)
            | Inr (bidId, d') \<Rightarrow>
                (case insert_audit_log of
                   Inl e \<Rightarrow> (autoBids, d')
                 | Inr u \<Rightarrow>
                     auto_bid_loop now auctionId rest nextBidAmount
                       (map_set key (autoBid\<lparr>ab_currentBid := nextBidAmount\<rparr>) autoBids) d'))
         else auto_bid_loop now auctionId rest newBidAmount autoBids d)"

definition qualifying :: "nat \<Rightarrow> rat \<Rightarrow> auto_bids \<Rightarrow> (string \<times> auto_bid) list" where
  "qualifying auctionId newBidAmount autoBids =
     sort_key (\<lambda>(key, bid). - ab_maxAmount bid)
       (filter (\<lambda>(key, bid).
                  startsWith key (''auto_'' @ show_int (int auctionId) @ ''_'') \<and> ab_active bid \<and>
                  ab_maxAmount bid > newBidAmount)
          autoBids)"

definition processAutoBids :: "int \<Rightarrow> nat \<Rightarrow> rat \<Rightarrow> auto_bids \<Rightarrow> db \<Rightarrow> auto_bids \<times> db" where
  "processAutoBids now auctionId newBidAmount autoBids d =
     auto_bid_loop now auctionId (qualifying auctionId newBidAmount autoBids)
       newBidAmount autoBids d"

section \<open>The handler of POST /api/bids\<close>

text \<open>
  The request body after JSON parsing: a field is \<open>None\<close> when it is missing or, for the
  two numeric fields, not an integer.

  The handler runs its validation chain and then reads \<open>req.user.id\<close> and calls
  \<open>db.execute\<close>.  \<open>server.js\<close> mounts the router with \<open>app.use('/api/bids', bidRoutes)\<close>,
  without the authentication middleware that would set \<open>req.user\<close>, and
  \<open>routes/bids.js\<close> neither imports nor declares \<open>db\<close>.  So reading \<open>req.user.id\<close>
  throws, and with \<open>req.user\<close> defined (the argument \<open>userId\<close>) the first \<open>db.execute\<close>
  throws; the handler's \<open>catch\<close> answers either with status 500.  No request gets past
  this point: the handler writes nothing and accepts no bid.
\<close>

record bid_request =
  req_auctionId :: "int option"
  req_amount :: "int option"
  req_bidType :: "string option"
  req_maxAmount :: "int option"

definition isInt_min :: "int \<Rightarrow> int option \<Rightarrow> bool" where
  "isInt_min m v = (case v of None \<Rightarrow> False | Some n \<Rightarrow> m \<le> n)"

definition validationResult :: "bid_request \<Rightarrow> bool" where
  "validationResult req =
     (isInt_min 1 (req_auctionId req) \<and>
      isInt_min 100000 (req_amount req) \<and>
      (case req_bidType req of
         None \<Rightarrow> True
       | Some t \<Rightarrow> t \<in> set [''normal'', ''auto'', ''proxy'']))"

definition post_bid :: "int \<Rightarrow> nat \<Rightarrow> bid_request \<Rightarrow> db \<Rightarrow> error + nat \<times> db" where
  "post_bid now userId req d =
     (if \<not> validationResult req then Inl Validation_errors else Inl Server_error)"

text \<open>
  The expressions of the unreachable part that the statements below name: the row the
  first query would select, the price the handler would read from it
  (\<open>auction.current_price || auction.starting_price\<close>; the first operand is the string
  the driver renders, and a string is falsy only when empty) and its minimum increment
  \<open>Math.max(100000, Math.floor(currentPrice * 0.05))\<close>, where the string of digits
  \<open>currentPrice\<close> converts to the double nearest to the integer it writes.
\<close>

definition live_auction_row :: "db \<Rightarrow> nat \<Rightarrow> (auction \<times> property) option" where
  "live_auction_row d auctionId =
     (case find (\<lambda>a. a_id a = auctionId \<and> status a = Live \<and> properties d (property_id a) \<noteq> None)
             (auctions d) of
        None \<Rightarrow> None
      | Some a \<Rightarrow> (case properties d (property_id a) of None \<Rightarrow> None | Some p \<Rightarrow> Some (a, p)))"

definition route_currentPrice :: "auction \<Rightarrow> property \<Rightarrow> int" where
  "route_currentPrice a p =
     (if bigint_column (current_price a) \<noteq> [] then current_price a else p_starting_price p)"

definition minBidIncrement :: "int \<Rightarrow> int" where
  "minBidIncrement currentPrice =
     max 100000 \<lfloor>round_double (round_double (of_int currentPrice) * round_double (5 / 100))\<rfloor>"

section \<open>Views of the state used in the statements\<close>


definition winning_rows :: "db \<Rightarrow> nat \<Rightarrow> bid list" where
  "winning_rows d auctionId =
     filter (\<lambda>b. bid_auction_id b = auctionId \<and> is_winning b) (bids d)"

text \<open>The four statements of the bid transaction, composed.\<close>

definition bid_transaction ::
  "int \<Rightarrow> nat \<Rightarrow> nat \<Rightarrow> int \<Rightarrow> int \<Rightarrow> bid_type \<Rightarrow> db \<Rightarrow> db" where
  "bid_transaction now auctionId userId amount maxAmount bidType d =
     mark_new_winning (next_bid_id d)
       (mark_previous_not_winning auctionId (next_bid_id d)
          (update_price_and_count amount auctionId
             (snd (insert_bid now auctionId userId amount maxAmount bidType d))))"

text \<open>What is stored and emitted about one auction: its row, its bids, its settlement
  rows and its events.\<close>

fun event_auction :: "event \<Rightarrow> nat" where
  "event_auction (Auction_started auctionId t) = auctionId"
| "event_auction (Auction_ended auctionId r w amount) = auctionId"
| "event_auction (Auction_extended auctionId t m) = auctionId"
| "event_auction (Bid_update auctionId bidId userId amount t) = auctionId"

definition auction_view ::
  "db \<Rightarrow> nat \<Rightarrow> auction list \<times> bid list \<times> transaction_row list \<times> event list" where
  "auction_view d auctionId =
     (filter (\<lambda>a. a_id a = auctionId) (auctions d),
      filter (\<lambda>b. bid_auction_id b = auctionId) (bids d),
      filter (\<lambda>t. txn_auction_id t = auctionId) (transactions d),
      filter (\<lambda>e. event_auction e = auctionId) (emitted d))"

section \<open>Runs of the engine\<close>

text \<open>
  A bid is accepted when its transaction is committed.  At time \<open>now\<close> a bid on an
  auction is accepted, taking the database from \<open>d\<close> to \<open>d'\<close>, by the service or by the
  REST handler.
\<close>

inductive accepted_bid :: "int \<Rightarrow> nat \<Rightarrow> db \<Rightarrow> db \<Rightarrow> bool" where
  by_placeBid:
    "placeBid now bidData d = Inr (bidId, d') \<Longrightarrow>
     accepted_bid now (bd_auctionId bidData) d d'"
| by_post_bid:
    "post_bid now userId req d = Inr (bidId, d') \<Longrightarrow> req_auctionId req = Some auctionId \<Longrightarrow>
     accepted_bid now (nat auctionId) d d'"

text \<open>One operation of the engine: a bid accepted or refused by the service, a bid
  accepted by the REST handler (which refuses every bid and writes nothing), a start, an
  end, a tick of the clock, a pass of the auto-bid resolver.\<close>

inductive engine_step :: "db \<Rightarrow> db \<Rightarrow> bool" where
  step_placeBid: "placeBid now bidData d = Inr (bidId, d') \<Longrightarrow> engine_step d d'"
| step_refused: "placeBid now bidData d = Inl e \<Longrightarrow> engine_step d (after_refusal e d)"
| step_post_bid: "post_bid now userId req d = Inr (bidId, d') \<Longrightarrow> engine_step d d'"
| step_startAuction: "engine_step d (startAuction now auctionId d)"
| step_endAuction: "engine_step d (endAuction env now auctionId d)"
| step_checkAuctionStatus: "engine_step d (checkAuctionStatus env now d)"
| step_processAutoBids:
    "processAutoBids now auctionId newBidAmount autoBids d = (autoBids', d') \<Longrightarrow>
     engine_step d d'"

text \<open>The tick and the resolver are sequences of these basic operations.\<close>

inductive basic_step :: "db \<Rightarrow> db \<Rightarrow> bool" where
  basic_placeBid: "placeBid now bidData d = Inr (bidId, d') \<Longrightarrow> basic_step d d'"
| basic_refused: "placeBid now bidData d = Inl e \<Longrightarrow> basic_step d (after_refusal e d)"
| basic_post_bid: "post_bid now userId req d = Inr (bidId, d') \<Longrightarrow> basic_step d d'"
| basic_startAuction: "basic_step d (startAuction now auctionId d)"
| basic_endAuction: "basic_step d (endAuction env now auctionId d)"


text \<open>Two states agree on an auction: the same view of it, the same ledger, users and
  properties.\<close>

definition same_for :: "nat \<Rightarrow> db \<Rightarrow> db \<Rightarrow> bool" where
  "same_for i d e =
     (auction_view d i = auction_view e i \<and> bids d = bids e \<and> users d = users e \<and>
      properties d = properties e)"

text \<open>The relation between a row of \<open>auctions\<close> and the same row later: same auction, same
  scheduled end, effective end not earlier.\<close>

definition end_not_earlier :: "auction \<Rightarrow> auction \<Rightarrow> bool" where
  "end_not_earlier a a' =
     (a_id a' = a_id a \<and> end_time a' = end_time a \<and>
      effectiveEndTime a \<le> effectiveEndTime a')"

section \<open>Example states\<close>

text \<open>The auction of the seed data: starting price 350,000,000, increment 5 percent,
  reserve 320,000,000, ending after ten minutes, extension by five minutes.\<close>

definition ex_auction :: auction where
  "ex_auction =
     \<lparr>a_id = 1, property_id = 1, start_time = 0, end_time = 600000,
       extended_end_time = None, starting_price = 350000000, reserve_price = 320000000,
       current_price = 350000000, bid_increment_percentage = 5, current_bid_count = 0,
       status = Live, result = None, winning_bid_id = None, auto_extend_enabled = True,
       auto_extend_minutes = 5, ended_at = None\<rparr>"

definition ex_user :: user where
  "ex_user = \<lparr>user_status = Active, identity_verified = True\<rparr>"

definition ex_db :: db where
  "ex_db =
     \<lparr>auctions = [ex_auction],
       properties = [1 \<mapsto> \<lparr>owner_id = 1, p_starting_price = 350000000,
                            p_reserve_price = 320000000\<rparr>],
       users = [1 \<mapsto> ex_user, 2 \<mapsto> ex_user, 3 \<mapsto> ex_user],
       bids = [], next_bid_id = 1, transactions = [], emitted = []\<rparr>"

definition ex_bid :: "nat \<Rightarrow> js_value \<Rightarrow> bid_data" where
  "ex_bid userId amount =
     \<lparr>bd_auctionId = 1, bd_userId = userId, bd_amount = amount, bd_bidType = None,
       bd_maxAmount = None\<rparr>"

definition ex_req :: "int \<Rightarrow> bid_request" where
  "ex_req amount =
     \<lparr>req_auctionId = Some 1, req_amount = Some amount, req_bidType = None,
       req_maxAmount = None\<rparr>"

text \<open>The state after user 2 has bid 368,000,000 at time 0, the amount sent as the
  string \<open>'368000000'\<close>.\<close>

definition ex_db1 :: db where
  "ex_db1 =
     \<lparr>auctions = [ex_auction\<lparr>current_price := 368000000, current_bid_count := 1\<rparr>],
       properties = properties ex_db,
       users = users ex_db,
       bids = [\<lparr>b_id = 1, bid_auction_id = 1, bid_user_id = 2, bid_amount = 368000000,
                max_amount = 0, bid_type = Normal, is_winning = True, created_at = 0\<rparr>],
       next_bid_id = 2, transactions = [],
       emitted = [Bid_update 1 1 2 (JS_string ''368000000'') Normal]\<rparr>"

text \<open>The same bid accepted two minutes before the end, at 480,000.\<close>

definition ex_db1_late :: db where
  "ex_db1_late =
     \<lparr>auctions = [ex_auction\<lparr>current_price := 368000000, current_bid_count := 1,
                    extended_end_time := Some 780000\<rparr>],
       properties = properties ex_db,
       users = users ex_db,
       bids = [\<lparr>b_id = 1, bid_auction_id = 1, bid_user_id = 2, bid_amount = 368000000,
                max_amount = 0, bid_type = Normal, is_winning = True, created_at = 480000\<rparr>],
       next_bid_id = 2, transactions = [],
       emitted = [Auction_extended 1 780000 5,
                  Bid_update 1 1 2 (JS_string ''368000000'') Normal]\<rparr>"

text \<open>The example auction with \<open>current_price\<close> still at its default 0, and the state after
  user 2 has bid 1,000,000,000 on it at time 0, the amount sent as a number.\<close>

definition ex_db_unpriced :: db where
  "ex_db_unpriced = ex_db\<lparr>auctions := [ex_auction\<lparr>current_price := 0\<rparr>]\<rparr>"

definition ex_db_big :: db where
  "ex_db_big =
     \<lparr>auctions = [ex_auction\<lparr>current_price := 1000000000, current_bid_count := 1\<rparr>],
       properties = properties ex_db,
       users = users ex_db,
       bids = [\<lparr>b_id = 1, bid_auction_id = 1, bid_user_id = 2, bid_amount = 1000000000,
                max_amount = 0, bid_type = Normal, is_winning = True, created_at = 0\<rparr>],
       next_bid_id = 2, transactions = [],
       emitted = [Bid_update 1 1 2 (JS_number 1000000000) Normal]\<rparr>"

text \<open>The state after user 2 has bid 9 on the example auction at time 0, the amount sent
  as the string \<open>'9'\<close>.\<close>

definition ex_db_9 :: db where
  "ex_db_9 =
     \<lparr>auctions = [ex_auction\<lparr>current_price := 9, current_bid_count := 1\<rparr>],
       properties = properties ex_db,
       users = users ex_db,
       bids = [\<lparr>b_id = 1, bid_auction_id = 1, bid_user_id = 2, bid_amount = 9,
                max_amount = 0, bid_type = Normal, is_winning = True, created_at = 0\<rparr>],
       next_bid_id = 2, transactions = [],
       emitted = [Bid_update 1 1 2 (JS_string ''9'') Normal]\<rparr>"

text \<open>The auto-bid agent of user 3 on auction 1 with ceiling 400,000,000, the state after
  user 2 has bid 370,000,000 (sent as a string) at time 0, and the bid the resolver then
  sends for the agent.\<close>

definition ex_agents :: auto_bids where
  "ex_agents =
     [(''auto_1_3'', \<lparr>ab_auctionId = 1, ab_userId = 3, ab_maxAmount = 400000000,
                       ab_currentBid = 0, ab_active = True\<rparr>)]"

definition ex_db_370 :: db where
  "ex_db_370 =
     \<lparr>auctions = [ex_auction\<lparr>current_price := 370000000, current_bid_count := 1\<rparr>],
       properties = properties ex_db,
       users = users ex_db,
       bids = [\<lparr>b_id = 1, bid_auction_id = 1, bid_user_id = 2, bid_amount = 370000000,
                max_amount = 0, bid_type = Normal, is_winning = True, created_at = 0\<rparr>],
       next_bid_id = 2, transactions = [],
       emitted = [Bid_update 1 1 2 (JS_string ''370000000'') Normal]\<rparr>"

definition ex_auto_bid :: bid_data where
  "ex_auto_bid =
     \<lparr>bd_auctionId = 1, bd_userId = 3, bd_amount = JS_number 388500000,
       bd_bidType = Some Auto, bd_maxAmount = None\<rparr>"

section \<open>Evaluation\<close>

lemmas query_defs =
  getAuctionDetails_def joins_owner_def getUserDetails_def getWinningBid_def getBidDetails_def
  effectiveEndTime_def

lemmas statement_defs =
  insert_bid_def update_price_and_count_def mark_previous_not_winning_def
  mark_new_winning_def auto_extend_def unique_winning_bid_def bid_statements_def

lemmas example_defs =
  ex_auction_def ex_user_def ex_db_def ex_bid_def ex_req_def ex_db1_def

text \<open>The minimum on the example auction, \<open>'350000000' + 17500000\<close>, and how the amounts
  368,000,000 sent as a number and as a string compare with it.\<close>

lemma minBid_350:
  "calculateMinBid (bigint_column 350000000) (decimal_column 5) = ''35000000017500000''"
  by code_simp

lemma less_368_number: "js_less (JS_number 368000000) ''35000000017500000'' = True"
  by code_simp

lemma less_368_string: "js_less (JS_string ''368000000'') ''35000000017500000'' = False"
  by code_simp

lemma param_368: "bigint_param (JS_string ''368000000'') = Some 368000000"
  by code_simp

lemma minBid_368:
  "calculateMinBid (bigint_column 368000000) (decimal_column 5) = ''36800000018400000''"
  by code_simp

lemma less_400_string: "js_less (JS_string ''400000000'') ''36800000018400000'' = False"
  by code_simp

lemma param_400: "bigint_param (JS_string ''400000000'') = Some 400000000"
  by code_simp

lemma less_9_string: "js_less (JS_string ''9'') ''35000000017500000'' = False"
  by code_simp

lemma param_9: "bigint_param (JS_string ''9'') = Some 9"
  by code_simp


lemma ex_placeBid_368_late:
  "placeBid 480000 (ex_bid 2 (JS_string ''368000000'')) ex_db = Inr (1, ex_db1_late)"
  by (simp add: placeBid_def query_defs statement_defs example_defs ex_db1_late_def
      minBid_350 less_368_string param_368)

lemma audit_log_fails: "insert_audit_log = Inl (Unknown_column ''data'')"
  by code_simp

section \<open>What an accepted bid does to the state\<close>

lemma find_map_option: "find P (map f xs) = map_option f (find (\<lambda>x. P (f x)) xs)"
  by (induction xs) auto

lemma bid_statements_Inr:
  assumes "bid_statements now auction i u amount m t d = Inr (bidId, d')"
  shows "\<exists>v. bigint_param amount = Some v \<and> bidId = next_bid_id d \<and>
           unique_winning_bid (bid_transaction now i u v m t d) \<and>
           d' = (auto_extend now auction i (bid_transaction now i u v m t d))
                \<lparr>emitted := emitted (auto_extend now auction i
                                       (bid_transaction now i u v m t d)) @
                     [Bid_update i bidId u amount t]\<rparr>"
  using assms
  by (auto simp: bid_statements_def Let_def bid_transaction_def insert_bid_def
           split: option.splits if_splits)

lemma placeBid_Inr:
  assumes "placeBid now bidData d = Inr (bidId, d')"
  shows "\<exists>auction user v.
           getAuctionDetails d (bd_auctionId bidData) = Some auction \<and>
           status auction = Live \<and>
           \<not> js_less (bd_amount bidData)
               (calculateMinBid (bigint_column (current_price auction))
                  (decimal_column (bid_increment_percentage auction))) \<and>
           getUserDetails d (bd_userId bidData) = Some user \<and>
           bigint_param (bd_amount bidData) = Some v \<and>
           bidId = next_bid_id d \<and>
           d' = (auto_extend now auction (bd_auctionId bidData)
                   (bid_transaction now (bd_auctionId bidData) (bd_userId bidData) v
                      (case bd_maxAmount bidData of None \<Rightarrow> 0 | Some m \<Rightarrow> m)
                      (case bd_bidType bidData of None \<Rightarrow> Normal | Some t \<Rightarrow> t) d))
                \<lparr>emitted := emitted (auto_extend now auction (bd_auctionId bidData)
                   (bid_transaction now (bd_auctionId bidData) (bd_userId bidData) v
                      (case bd_maxAmount bidData of None \<Rightarrow> 0 | Some m \<Rightarrow> m)
                      (case bd_bidType bidData of None \<Rightarrow> Normal | Some t \<Rightarrow> t) d)) @
                     [Bid_update (bd_auctionId bidData) bidId (bd_userId bidData)
                        (bd_amount bidData)
                        (case bd_bidType bidData of None \<Rightarrow> Normal | Some t \<Rightarrow> t)]\<rparr>"
proof -
  from assms obtain auction user where
    a: "getAuctionDetails d (bd_auctionId bidData) = Some auction" "status auction = Live"
      "\<not> js_less (bd_amount bidData)
               (calculateMinBid (bigint_column (current_price auction))
                  (decimal_column (bid_increment_percentage auction)))"
      "getUserDetails d (bd_userId bidData) = Some user"
    and s: "bid_statements now auction (bd_auctionId bidData) (bd_userId bidData)
              (bd_amount bidData)
              (case bd_maxAmount bidData of None \<Rightarrow> 0 | Some m \<Rightarrow> m)
              (case bd_bidType bidData of None \<Rightarrow> Normal | Some t \<Rightarrow> t) d = Inr (bidId, d')"
    by (auto simp: placeBid_def Let_def split: option.splits if_splits)
  from bid_statements_Inr[OF s] a show ?thesis by blast
qed

text \<open>The REST handler accepts nothing.\<close>

lemma post_bid_refuses: "post_bid now userId req d \<noteq> Inr r"
  by (simp add: post_bid_def)

lemma bid_transaction_auctions:
  "auctions (bid_transaction now i u amt m t d) =
     map (\<lambda>a. if a_id a = i
              then a\<lparr>current_price := amt, current_bid_count := Suc (current_bid_count a)\<rparr>
              else a) (auctions d)"
  by (simp add: bid_transaction_def insert_bid_def update_price_and_count_def
      mark_previous_not_winning_def mark_new_winning_def)

lemma bid_transaction_frame:
  "users (bid_transaction now i u amt m t d) = users d"
  "properties (bid_transaction now i u amt m t d) = properties d"
  "transactions (bid_transaction now i u amt m t d) = transactions d"
  "emitted (bid_transaction now i u amt m t d) = emitted d"
  "next_bid_id (bid_transaction now i u amt m t d) = Suc (next_bid_id d)"
  by (simp_all add: bid_transaction_def insert_bid_def update_price_and_count_def
      mark_previous_not_winning_def mark_new_winning_def)

lemma auto_extend_frame:
  "users (auto_extend now auction i d) = users d"
  "properties (auto_extend now auction i d) = properties d"
  "transactions (auto_extend now auction i d) = transactions d"
  "bids (auto_extend now auction i d) = bids d"
  "next_bid_id (auto_extend now auction i d) = next_bid_id d"
  by (simp_all add: auto_extend_def Let_def)

lemma auto_extend_auctions:
  "auctions (auto_extend now auction i d) =
     (if auto_extend_enabled auction \<and>
         effectiveEndTime auction - now < auto_extend_minutes auction * 60 * 1000
      then map (\<lambda>a. if a_id a = i
                    then a\<lparr>extended_end_time :=
                             Some (now + auto_extend_minutes auction * 60 * 1000)\<rparr>
                    else a) (auctions d)
      else auctions d)"
  by (simp add: auto_extend_def Let_def)

lemma getAuctionDetails_id: "getAuctionDetails d i = Some a \<Longrightarrow> a_id a = i"
  by (auto simp: getAuctionDetails_def find_Some_iff)

lemma getAuctionDetails_mem: "getAuctionDetails d i = Some a \<Longrightarrow> a \<in> set (auctions d)"
  by (auto simp: getAuctionDetails_def find_Some_iff)

section \<open>Runs as sequences of basic operations\<close>

lemma check_one_basic: "basic_step\<^sup>*\<^sup>* d (check_one env now a d)"
proof -
  let ?d1 = "if status a = Scheduled \<and> now \<ge> start_time a
             then startAuction now (a_id a) d else d"
  have 1: "basic_step\<^sup>*\<^sup>* d ?d1"
    by (auto intro: basic_step.intros)
  have 2: "basic_step\<^sup>*\<^sup>* ?d1 (check_one env now a d)"
    unfolding check_one_def Let_def by (auto intro: basic_step.intros)
  from 1 2 show ?thesis by (rule rtranclp_trans)
qed

lemma fold_check_one_basic: "basic_step\<^sup>*\<^sup>* d (fold (check_one env now) as d)"
proof (induction as arbitrary: d)
  case Nil
  show ?case by simp
next
  case (Cons a as)
  have "basic_step\<^sup>*\<^sup>* (check_one env now a d) (fold (check_one env now) as (check_one env now a d))"
    by (rule Cons.IH)
  with check_one_basic[of d env now a] show ?case
    by (simp add: rtranclp_trans)
qed

lemma checkAuctionStatus_basic: "basic_step\<^sup>*\<^sup>* d (checkAuctionStatus env now d)"
  unfolding checkAuctionStatus_def Let_def by (rule fold_check_one_basic)

lemma auto_bid_loop_basic:
  "auto_bid_loop now i cs amt ab d = (ab', d') \<Longrightarrow> basic_step\<^sup>*\<^sup>* d d'"
proof (induction now i cs amt ab d rule: auto_bid_loop.induct)
  case (1 now auctionId newBidAmount autoBids d)
  then show ?case by simp
next
  case (2 now auctionId key autoBid rest newBidAmount autoBids d)
  let ?next = "calculateNextBid newBidAmount"
  let ?bd = "\<lparr>bd_auctionId = auctionId, bd_userId = ab_userId autoBid,
                     bd_amount = JS_number ?next, bd_bidType = Some Auto,
                     bd_maxAmount = None\<rparr>"
  show ?case
  proof (cases "?next \<le> ab_maxAmount autoBid")
    case False
    with 2 show ?thesis by (simp add: Let_def)
  next
    case True
    show ?thesis
    proof (cases "placeBid now ?bd d")
      case (Inl e)
      with True "2.prems" have "d' = after_refusal e d" by (simp add: Let_def)
      with Inl show ?thesis by (auto intro: basic_step.intros)
    next
      case (Inr r)
      obtain bidId d1 where r: "r = (bidId, d1)" by (cases r)
      from Inr r have s: "basic_step d d1" by (auto intro: basic_step.intros)
      show ?thesis
      proof (cases insert_audit_log)
        case failed: (Inl e)
        from "2.prems" have "d' = d1"
          by (simp add: Let_def True Inr r failed)
        with s show ?thesis by auto
      next
        case logged: (Inr u)
        from "2.prems" have "auto_bid_loop now auctionId rest ?next
            (map_set key (autoBid\<lparr>ab_currentBid := ?next\<rparr>) autoBids) d1 = (ab', d')"
          by (simp add: Let_def True Inr r logged)
        with "2.IH"(1)[OF refl True Inr[unfolded r] refl logged]
        have "basic_step\<^sup>*\<^sup>* d1 d'" by simp
        with s show ?thesis by (rule converse_rtranclp_into_rtranclp)
      qed
    qed
  qed
qed

lemma engine_step_basic: "engine_step d d' \<Longrightarrow> basic_step\<^sup>*\<^sup>* d d'"
proof (induction rule: engine_step.induct)
  case (step_checkAuctionStatus d env now)
  show ?case by (rule checkAuctionStatus_basic)
next
  case (step_processAutoBids now auctionId newBidAmount autoBids d autoBids' d')
  then show ?case unfolding processAutoBids_def by (rule auto_bid_loop_basic)
qed (auto intro: basic_step.intros)

lemma engine_run_basic: "engine_step\<^sup>*\<^sup>* d d' \<Longrightarrow> basic_step\<^sup>*\<^sup>* d d'"
  by (induction rule: rtranclp_induct) (auto dest: engine_step_basic)

lemma invariant_run:
  assumes step: "\<And>d d'. I d \<Longrightarrow> basic_step d d' \<Longrightarrow> I d'"
    and init: "I d" and run: "engine_step\<^sup>*\<^sup>* d d'"
  shows "I d'"
proof -
  from run have "basic_step\<^sup>*\<^sup>* d d'" by (rule engine_run_basic)
  then show ?thesis using init
    by (induction rule: rtranclp_induct) (auto intro: step)
qed

section \<open>The ledger of bids\<close>







lemma createTransaction_frame:
  "bids (createTransaction env i b d) = bids d"
  "next_bid_id (createTransaction env i b d) = next_bid_id d"
  "auctions (createTransaction env i b d) = auctions d"
  "users (createTransaction env i b d) = users d"
  "properties (createTransaction env i b d) = properties d"
  "emitted (createTransaction env i b d) = emitted d"
  by (simp_all add: createTransaction_def Let_def split: option.splits)


lemma endAuction_auctions:
  "auctions (endAuction env now i d) =
     (case getAuctionDetails d i of
        None \<Rightarrow> auctions d
      | Some a \<Rightarrow>
          auctions (update_ended now i (fst (end_result d i a)) (snd (end_result d i a)) d))"
  by (simp add: endAuction_def Let_def createTransaction_frame update_ended_def
      split: option.splits prod.splits)







section \<open>The effective end of an auction\<close>

lemma end_not_earlier_refl: "end_not_earlier a a"
  by (simp add: end_not_earlier_def)

lemma end_not_earlier_trans:
  "end_not_earlier a b \<Longrightarrow> end_not_earlier b c \<Longrightarrow> end_not_earlier a c"
  by (simp add: end_not_earlier_def)

lemma ends_map:
  "(\<And>a. a \<in> set xs \<Longrightarrow> end_not_earlier a (h a)) \<Longrightarrow> list_all2 end_not_earlier xs (map h xs)"
  by (simp add: list_all2_map2 list_all2_same)

lemma ends_trans:
  "list_all2 end_not_earlier xs ys \<Longrightarrow> list_all2 end_not_earlier ys zs \<Longrightarrow>
   list_all2 end_not_earlier xs zs"
  by (rule list_all2_trans[of end_not_earlier end_not_earlier end_not_earlier])
     (auto intro: end_not_earlier_trans)

lemma ends_ids: "list_all2 end_not_earlier xs ys \<Longrightarrow> map a_id ys = map a_id xs"
  by (induction rule: list_all2_induct) (auto simp: end_not_earlier_def)

lemma unique_row:
  "distinct (map a_id xs) \<Longrightarrow> a \<in> set xs \<Longrightarrow> b \<in> set xs \<Longrightarrow> a_id a = a_id b \<Longrightarrow> a = b"
  by (meson distinct_map inj_onD)

lemma ends_startAuction:
  "list_all2 end_not_earlier (auctions d) (auctions (startAuction now i d))"
  unfolding startAuction_def
  by (simp, rule ends_map) (simp add: end_not_earlier_def effectiveEndTime_def split: option.splits)

lemma ends_endAuction:
  "list_all2 end_not_earlier (auctions d) (auctions (endAuction env now i d))"
proof (cases "getAuctionDetails d i")
  case None
  then show ?thesis
    by (simp add: endAuction_auctions list_all2_same end_not_earlier_refl)
next
  case (Some a)
  then show ?thesis
    unfolding endAuction_auctions update_ended_def
    by (simp, intro ends_map)
       (simp add: end_not_earlier_def effectiveEndTime_def split: option.splits)
qed

lemma ends_bid_transaction:
  "list_all2 end_not_earlier (auctions d) (auctions (bid_transaction now i u amt m t d))"
  unfolding bid_transaction_auctions
  by (rule ends_map) (simp add: end_not_earlier_def effectiveEndTime_def split: option.splits)

lemma ends_auto_extend:
  assumes "distinct (map a_id (auctions d))" "auction \<in> set (auctions d)" "a_id auction = i"
  shows "list_all2 end_not_earlier (auctions d) (auctions (auto_extend now auction i d))"
proof (cases "auto_extend_enabled auction \<and>
         effectiveEndTime auction - now < auto_extend_minutes auction * 60 * 1000")
  case False
  then show ?thesis
    by (auto simp add: auto_extend_auctions list_all2_same end_not_earlier_refl)
next
  case True
  have "end_not_earlier a (if a_id a = i
          then a\<lparr>extended_end_time := Some (now + auto_extend_minutes auction * 60 * 1000)\<rparr>
          else a)" if "a \<in> set (auctions d)" for a
  proof (cases "a_id a = i")
    case False
    then show ?thesis by (simp add: end_not_earlier_refl)
  next
    case same: True
    with assms that have "a = auction" by (auto intro: unique_row)
    with True same show ?thesis
      by (simp add: end_not_earlier_def effectiveEndTime_def split: option.splits)
  qed
  with True show ?thesis
    by (simp add: auto_extend_auctions ends_map)
qed

lemma auto_extend_row_cong:
  "auto_extend_enabled a' = auto_extend_enabled a \<Longrightarrow>
   effectiveEndTime a' = effectiveEndTime a \<Longrightarrow>
   auto_extend_minutes a' = auto_extend_minutes a \<Longrightarrow>
   auto_extend now a' i d = auto_extend now a i d"
  by (simp add: auto_extend_def Let_def)

lemma effectiveEndTime_price [simp]:
  "effectiveEndTime (a\<lparr>current_price := p, current_bid_count := n\<rparr>) = effectiveEndTime a"
  by (simp add: effectiveEndTime_def split: option.splits)

lemma ends_basic_step:
  assumes "basic_step d d'" "distinct (map a_id (auctions d))"
  shows "list_all2 end_not_earlier (auctions d) (auctions d')"
  using assms
proof (induction rule: basic_step.induct)
  case (basic_placeBid now bidData d bidId d')
  let ?i = "bd_auctionId bidData"
  from placeBid_Inr[OF basic_placeBid(1)] obtain auction v where
    a: "getAuctionDetails d ?i = Some auction"
    and d': "auctions d' = auctions (auto_extend now auction ?i
               (bid_transaction now ?i (bd_userId bidData) v
                  (case bd_maxAmount bidData of None \<Rightarrow> 0 | Some m \<Rightarrow> m)
                  (case bd_bidType bidData of None \<Rightarrow> Normal | Some t \<Rightarrow> t) d))"
    by force
  let ?bt = "bid_transaction now ?i (bd_userId bidData) v
               (case bd_maxAmount bidData of None \<Rightarrow> 0 | Some m \<Rightarrow> m)
               (case bd_bidType bidData of None \<Rightarrow> Normal | Some t \<Rightarrow> t) d"
  have 1: "list_all2 end_not_earlier (auctions d) (auctions ?bt)"
    by (rule ends_bid_transaction)
  have ids: "map a_id (auctions ?bt) = map a_id (auctions d)"
    using 1 by (rule ends_ids)
  let ?f = "\<lambda>a. if a_id a = ?i
              then a\<lparr>current_price := v, current_bid_count := Suc (current_bid_count a)\<rparr>
              else a"
  have mem: "?f auction \<in> set (auctions ?bt)"
    using getAuctionDetails_mem[OF a] by (simp add: bid_transaction_auctions)
  have "list_all2 end_not_earlier (auctions ?bt) (auctions (auto_extend now (?f auction) ?i ?bt))"
    using basic_placeBid(2) ids mem getAuctionDetails_id[OF a]
    by (intro ends_auto_extend) auto
  moreover have "auto_extend now (?f auction) ?i ?bt = auto_extend now auction ?i ?bt"
    by (rule auto_extend_row_cong) simp_all
  ultimately show ?case using 1 d' by (auto intro: ends_trans)
next
  case (basic_refused now bidData d e)
  show ?case by (simp add: after_refusal_def list_all2_same end_not_earlier_refl)
next
  case (basic_post_bid now userId req d bidId d')
  then show ?case by (simp add: post_bid_refuses)
next
  case (basic_startAuction d now auctionId)
  show ?case by (rule ends_startAuction)
next
  case (basic_endAuction d env now auctionId)
  show ?case by (rule ends_endAuction)
qed

lemma ends_run:
  assumes "distinct (map a_id (auctions d))" "engine_step\<^sup>*\<^sup>* d d'"
  shows "list_all2 end_not_earlier (auctions d) (auctions d')"
proof (rule invariant_run[where I = "\<lambda>e. list_all2 end_not_earlier (auctions d) (auctions e)" and d = d])
  show "list_all2 end_not_earlier (auctions d) (auctions d)"
    by (simp add: list_all2_same end_not_earlier_refl)
next
  fix e e'
  assume I: "list_all2 end_not_earlier (auctions d) (auctions e)" and s: "basic_step e e'"
  from I assms(1) have "distinct (map a_id (auctions e))" by (simp add: ends_ids)
  with s have "list_all2 end_not_earlier (auctions e) (auctions e')" by (rule ends_basic_step)
  with I show "list_all2 end_not_earlier (auctions d) (auctions e')" by (rule ends_trans)
qed (rule assms(2))

text \<open>
  Claim C6.  A row of \<open>auctions\<close> whose \<open>extended_end_time\<close> is still \<open>NULL\<close>, as at its
  creation, has its scheduled \<open>end_time\<close> as effective end.  Along every run of the engine
  (accepted and refused bids, starts, ends, ticks, resolver passes) over a table with
  unique auction identifiers, every auction keeps its scheduled end and its effective end
  never moves backward.
\<close>

theorem effective_end_never_earlier:
  assumes "distinct (map a_id (auctions d))" and "engine_step\<^sup>*\<^sup>* d d'"
  shows "list_all2 end_not_earlier (auctions d) (auctions d') \<and>
    (extended_end_time a = None \<longrightarrow> effectiveEndTime a = end_time a)"
  using ends_run[OF assms] by (simp add: effectiveEndTime_def)

text \<open>The example: the bid two minutes before the end moves it from 600,000 to 780,000.\<close>

theorem effective_end_never_earlier_witness:
  "distinct (map a_id (auctions ex_db)) \<and> engine_step\<^sup>*\<^sup>* ex_db ex_db1_late \<and>
   extended_end_time ex_auction = None \<and>
   list_all2 end_not_earlier (auctions ex_db) (auctions ex_db1_late) \<and>
   map effectiveEndTime (auctions ex_db) = [end_time ex_auction] \<and>
   map effectiveEndTime (auctions ex_db1_late) = [780000]"
proof -
  have pk: "distinct (map a_id (auctions ex_db))" by (simp add: ex_db_def)
  have run: "engine_step\<^sup>*\<^sup>* ex_db ex_db1_late"
    using ex_placeBid_368_late by (auto intro: engine_step.intros)
  have n: "extended_end_time ex_auction = None" by (simp add: ex_auction_def)
  from effective_end_never_earlier[OF pk run, of ex_auction] n
  have "list_all2 end_not_earlier (auctions ex_db) (auctions ex_db1_late)"
    and "effectiveEndTime ex_auction = end_time ex_auction" by simp_all
  moreover have "auctions ex_db = [ex_auction]" by (simp add: ex_db_def)
  moreover have "map effectiveEndTime (auctions ex_db1_late) = [780000]"
    by (simp add: ex_db1_late_def effectiveEndTime_def)
  ultimately show ?thesis using pk run n by simp
qed

section \<open>Anti-sniping extension\<close>

text \<open>
  Claim C5.  A bid is accepted when its transaction is committed; the acceptances are
  those of \<open>placeBid\<close> (manual bids through the socket and the bids of the auto-bid
  resolver, which calls \<open>placeBid\<close>), the handler of \<open>POST /api/bids\<close> accepting nothing.
  For every bid accepted at time \<open>now\<close> on an auction with \<open>auto_extend_enabled\<close> whose
  effective end (\<open>extended_end_time\<close>, else \<open>end_time\<close>) is less than \<open>auto_extend_minutes\<close>
  minutes away, the auction's effective end becomes the time of the bid plus
  \<open>auto_extend_minutes\<close> minutes: the extension is measured from the acceptance, not from
  the old deadline.  The one column \<open>auto_extend_minutes\<close> is both the window and the length
  of the extension.
\<close>

theorem anti_sniping_extension:
  assumes acc: "accepted_bid now i d d'"
    and row: "getAuctionDetails d i = Some auction"
    and en: "auto_extend_enabled auction"
    and late: "effectiveEndTime auction - now < auto_extend_minutes auction * 60 * 1000"
  shows "\<exists>a'. getAuctionDetails d' i = Some a' \<and>
              effectiveEndTime a' = now + auto_extend_minutes auction * 60 * 1000"
  using acc row
proof (cases rule: accepted_bid.cases)
  case (by_placeBid bidData bidId)
  let ?t = "now + auto_extend_minutes auction * 60 * 1000"
  from placeBid_Inr[OF by_placeBid(2)] row by_placeBid(1) obtain v where
    d': "d' = (auto_extend now auction i
                 (bid_transaction now i (bd_userId bidData) v
                    (case bd_maxAmount bidData of None \<Rightarrow> 0 | Some m \<Rightarrow> m)
                    (case bd_bidType bidData of None \<Rightarrow> Normal | Some t \<Rightarrow> t) d))
              \<lparr>emitted := emitted (auto_extend now auction i
                 (bid_transaction now i (bd_userId bidData) v
                    (case bd_maxAmount bidData of None \<Rightarrow> 0 | Some m \<Rightarrow> m)
                    (case bd_bidType bidData of None \<Rightarrow> Normal | Some t \<Rightarrow> t) d)) @
                   [Bid_update i bidId (bd_userId bidData) (bd_amount bidData)
                      (case bd_bidType bidData of None \<Rightarrow> Normal | Some t \<Rightarrow> t)]\<rparr>"
    by auto
  let ?f = "\<lambda>a. if a_id a = i
      then a\<lparr>current_price := v, current_bid_count := Suc (current_bid_count a),
             extended_end_time := Some ?t\<rparr>
      else a"
  from d' en late
  have au: "auctions d' = map ?f (auctions d)"
    and fr: "users d' = users d" "properties d' = properties d"
    by (auto simp: auto_extend_auctions bid_transaction_auctions auto_extend_frame
        bid_transaction_frame)
  have jo: "joins_owner d' (?f a) = joins_owner d a" for a
    using fr by (simp add: joins_owner_def split: option.splits)
  have "getAuctionDetails d' i = map_option ?f (getAuctionDetails d i)"
    unfolding getAuctionDetails_def au find_map_option jo
    by (rule arg_cong[where f="map_option ?f"], rule arg_cong2[where f=find]) auto
  with row have "getAuctionDetails d' i = Some (?f auction)" by simp
  moreover have "a_id auction = i"
    using row by (rule getAuctionDetails_id)
  ultimately show ?thesis by (auto simp: effectiveEndTime_def)
next
  case (by_post_bid userId req bidId auctionId)
  then show ?thesis by (simp add: post_bid_refuses)
qed

text \<open>The case of the specification: window and extension of five minutes, a bid two
  minutes before the end at 600,000; the new end is 480,000 + 300,000.\<close>

theorem anti_sniping_extension_witness:
  "placeBid 480000 (ex_bid 2 (JS_string ''368000000'')) ex_db = Inr (1, ex_db1_late) \<and>
   accepted_bid 480000 1 ex_db ex_db1_late \<and>
   getAuctionDetails ex_db 1 = Some ex_auction \<and>
   auto_extend_enabled ex_auction \<and>
   effectiveEndTime ex_auction - 480000 < auto_extend_minutes ex_auction * 60 * 1000 \<and>
   effectiveEndTime ex_auction = 600000 \<and>
   (\<exists>a'. getAuctionDetails ex_db1_late 1 = Some a' \<and> effectiveEndTime a' = 780000)"
proof -
  have "accepted_bid 480000 (bd_auctionId (ex_bid 2 (JS_string ''368000000''))) ex_db ex_db1_late"
    using ex_placeBid_368_late by (rule accepted_bid.by_placeBid)
  then have acc: "accepted_bid 480000 1 ex_db ex_db1_late"
    by (simp add: ex_bid_def)
  have row: "getAuctionDetails ex_db 1 = Some ex_auction"
    by (simp add: query_defs example_defs)
  have en: "auto_extend_enabled ex_auction"
    by (simp add: example_defs)
  have late: "effectiveEndTime ex_auction - 480000 < auto_extend_minutes ex_auction * 60 * 1000"
    by (simp add: query_defs example_defs)
  have e: "effectiveEndTime ex_auction = 600000"
    by (simp add: query_defs example_defs)
  have m: "480000 + auto_extend_minutes ex_auction * 60 * 1000 = 780000"
    by (simp add: example_defs)
  from anti_sniping_extension[OF acc row en late] m
  show ?thesis using ex_placeBid_368_late acc row en late e by simp
qed

section \<open>Finalization and the clock\<close>

lemma same_for_refl: "same_for i d d"
  by (simp add: same_for_def)

lemma same_for_trans: "same_for i d e \<Longrightarrow> same_for i e f \<Longrightarrow> same_for i d f"
  by (simp add: same_for_def)

lemma filter_map_other:
  "(\<And>x. P (h x) = P x) \<Longrightarrow> (\<And>x. P x \<Longrightarrow> h x = x) \<Longrightarrow> filter P (map h xs) = filter P xs"
  by (induction xs) auto

lemma filter_map_same:
  "(\<And>x. P (h x) = P x) \<Longrightarrow> filter P (map h xs) = map h (filter P xs)"
  by (induction xs) auto

lemma same_for_startAuction: "j \<noteq> i \<Longrightarrow> same_for i (startAuction now j d) d"
  by (simp add: same_for_def auction_view_def startAuction_def filter_map_other)

lemma createTransaction_other:
  "j \<noteq> i \<Longrightarrow> same_for i (createTransaction env j b d) d"
  by (simp add: same_for_def auction_view_def createTransaction_def Let_def
      split: option.splits)

lemma endAuction_Some:
  assumes "getAuctionDetails d i = Some a"
    and "r = fst (end_result d i a)" "w = snd (end_result d i a)"
    and "d2 = (update_ended now i r w d)\<lparr>emitted := emitted (update_ended now i r w d) @
      [Auction_ended i r w (bigint_column (current_price a))]\<rparr>"
  shows "endAuction env now i d =
      (case w of
         Some bidId \<Rightarrow> if r = Sold \<and> bidId \<noteq> 0 then createTransaction env i bidId d2 else d2
       | None \<Rightarrow> d2)"
  unfolding assms(4) assms(2) assms(3)
  using assms(1) by (simp add: endAuction_def Let_def case_prod_beta)

lemma same_for_endAuction: "j \<noteq> i \<Longrightarrow> same_for i (endAuction env now j d) d"
proof (cases "getAuctionDetails d j")
  case None
  then show ?thesis by (simp add: endAuction_def same_for_refl)
next
  case (Some a)
  assume ji: "j \<noteq> i"
  define r where "r = fst (end_result d j a)"
  define w where "w = snd (end_result d j a)"
  define d2 where "d2 = (update_ended now j r w d)\<lparr>emitted :=
      emitted (update_ended now j r w d) @ [Auction_ended j r w (bigint_column (current_price a))]\<rparr>"
  note e = endAuction_Some[OF Some r_def w_def d2_def, of env]
  have 2: "same_for i d2 d"
    using ji by (simp add: d2_def same_for_def auction_view_def update_ended_def
        filter_map_other)
  have 3: "same_for i (createTransaction env j b d2) d" for b
    using createTransaction_other[OF ji] 2 by (rule same_for_trans)
  show ?thesis
    unfolding e using 2 3 by (simp split: option.splits)
qed

lemma same_for_check_one: "a_id x \<noteq> i \<Longrightarrow> same_for i (check_one env now x d) d"
  unfolding check_one_def Let_def
  by (auto intro: same_for_refl same_for_startAuction same_for_endAuction same_for_trans)

lemma same_for_fold:
  "\<forall>x \<in> set xs. a_id x \<noteq> i \<Longrightarrow> same_for i (fold (check_one env now) xs d) d"
proof (induction xs arbitrary: d)
  case Nil
  show ?case by (simp add: same_for_refl)
next
  case (Cons x xs)
  then have "same_for i (fold (check_one env now) xs (check_one env now x d)) (check_one env now x d)"
    by simp
  moreover from Cons.prems have "same_for i (check_one env now x d) d"
    by (simp add: same_for_check_one)
  ultimately show ?case by (auto intro: same_for_trans)
qed

lemma find_filter_conj: "find (\<lambda>x. P x \<and> Q x) xs = find Q (filter P xs)"
  by (induction xs) auto

lemma getAuctionDetails_same_for:
  assumes "same_for i d e"
  shows "getAuctionDetails d i = getAuctionDetails e i"
proof -
  have "joins_owner d x = joins_owner e x" for x
    using assms by (simp add: joins_owner_def same_for_def cong: option.case_cong)
  then have "joins_owner d = joins_owner e" by (rule ext)
  moreover have "filter (\<lambda>a. a_id a = i) (auctions d) = filter (\<lambda>a. a_id a = i) (auctions e)"
    using assms by (simp add: same_for_def auction_view_def)
  ultimately show ?thesis
    by (simp add: getAuctionDetails_def find_filter_conj)
qed

lemma same_for_endAuction_same:
  assumes s: "same_for i d e"
  shows "same_for i (endAuction env now i d) (endAuction env now i e)"
proof (cases "getAuctionDetails d i")
  case None
  with getAuctionDetails_same_for[OF s] s show ?thesis by (simp add: endAuction_def)
next
  case (Some a)
  with getAuctionDetails_same_for[OF s] have ge: "getAuctionDetails e i = Some a" by simp
  have res: "end_result e i a = end_result d i a"
    using s by (simp add: end_result_def getWinningBid_def same_for_def)
  define r where "r = fst (end_result d i a)"
  define w where "w = snd (end_result d i a)"
  define d2 where "d2 = (update_ended now i r w d)\<lparr>emitted :=
      emitted (update_ended now i r w d) @ [Auction_ended i r w (bigint_column (current_price a))]\<rparr>"
  define e2 where "e2 = (update_ended now i r w e)\<lparr>emitted :=
      emitted (update_ended now i r w e) @ [Auction_ended i r w (bigint_column (current_price a))]\<rparr>"
  note d = endAuction_Some[OF Some r_def w_def d2_def, of env]
  note e = endAuction_Some[OF ge r_def[folded res] w_def[folded res] e2_def, of env]
  have 2: "same_for i d2 e2"
    using s by (simp add: d2_def e2_def same_for_def auction_view_def update_ended_def
        filter_map_same)
  have 3: "same_for i (createTransaction env i b d2) (createTransaction env i b e2)" for b
  proof -
    have "getAuctionDetails d2 i = getAuctionDetails e2 i"
      using 2 by (rule getAuctionDetails_same_for)
    moreover have "getBidDetails d2 b = getBidDetails e2 b"
      using 2 by (simp add: getBidDetails_def same_for_def)
    ultimately show ?thesis
      using 2 by (simp add: createTransaction_def Let_def same_for_def auction_view_def
          split: option.splits)
  qed
  show ?thesis
    unfolding d e using 2 3 by (simp split: option.splits)
qed


lemma tick_idle:
  assumes "\<forall>x \<in> set (auctions d). a_id x = i \<longrightarrow> status x \<noteq> Scheduled \<and> status x \<noteq> Live"
  shows "same_for i (checkAuctionStatus env now d) d"
  unfolding checkAuctionStatus_def Let_def
  using assms by (intro same_for_fold) auto

lemma tick_ends:
  assumes pk: "distinct (map a_id (auctions d))" and row: "getAuctionDetails d i = Some a"
    and live: "status a = Live" and due: "effectiveEndTime a \<le> now"
  shows "same_for i (checkAuctionStatus env now d) (endAuction env now i d)"
proof -
  let ?act = "filter (\<lambda>x. status x = Scheduled \<or> status x = Live) (auctions d)"
  let ?f = "check_one env now"
  have id: "a_id a = i" using row by (rule getAuctionDetails_id)
  have "a \<in> set ?act"
    using getAuctionDetails_mem[OF row] live by simp
  then obtain xs ys where act: "?act = xs @ a # ys" by (auto dest: split_list)
  have "distinct (map a_id ?act)" using pk by (rule distinct_map_filter)
  then have "a_id a \<notin> a_id ` set xs" and "a_id a \<notin> a_id ` set ys"
    unfolding act by auto
  then have other: "\<forall>x \<in> set xs. a_id x \<noteq> i" "\<forall>x \<in> set ys. a_id x \<noteq> i"
    using id by (metis imageI)+
  let ?d1 = "fold ?f xs d"
  have 1: "same_for i ?d1 d" using other(1) by (rule same_for_fold)
  have "?f a ?d1 = endAuction env now i ?d1"
    using live due id by (simp add: check_one_def)
  moreover have "same_for i (endAuction env now i ?d1) (endAuction env now i d)"
    using 1 by (rule same_for_endAuction_same)
  ultimately have 2: "same_for i (?f a ?d1) (endAuction env now i d)" by simp
  have "same_for i (fold ?f ys (?f a ?d1)) (?f a ?d1)"
    using other(2) by (rule same_for_fold)
  with 2 have "same_for i (fold ?f ys (?f a ?d1)) (endAuction env now i d)"
    by (rule same_for_trans[rotated])
  then show ?thesis
    by (simp add: checkAuctionStatus_def act)
qed

lemma endAuction_rows_ended:
  assumes "getAuctionDetails d i = Some a" "x \<in> set (auctions (endAuction env now i d))"
    "a_id x = i"
  shows "status x = Ended \<and> result x \<noteq> None"
proof -
  let ?h = "\<lambda>y. if a_id y = i
          then y\<lparr>status := Ended, result := Some (fst (end_result d i a)),
                 winning_bid_id := snd (end_result d i a), ended_at := Some now\<rparr>
          else y"
  have "auctions (endAuction env now i d) = map ?h (auctions d)"
    using assms(1) by (simp add: endAuction_auctions update_ended_def)
  with assms(2) have "x \<in> ?h ` set (auctions d)" by simp
  then obtain y where "x = ?h y" by (rule imageE)
  with assms(3) show ?thesis by (cases "a_id y = i") auto
qed

text \<open>
  Claim C8, as the code has it.  The guard against a second finalization is in the clock:
  \<open>checkAuctionStatus\<close> reads the rows whose status is \<open>scheduled\<close> or \<open>live\<close> and calls
  \<open>endAuction\<close> for a row read as \<open>live\<close>, and \<open>endAuction\<close> sets the status to \<open>ended\<close>.
  So, over a table with unique auction identifiers, the tick at or after the effective
  end of a live auction does to that auction exactly what one call of \<open>endAuction\<close> does
  (its row, bids, settlement rows and events are those after one \<open>endAuction\<close>), and a
  further tick at any time leaves all of them as they are.
\<close>

theorem clock_finalizes_once:
  assumes "distinct (map a_id (auctions d))" and "getAuctionDetails d i = Some a"
    and "status a = Live" and "effectiveEndTime a \<le> now"
  shows "auction_view (checkAuctionStatus env now d) i = auction_view (endAuction env now i d) i \<and>
    auction_view (checkAuctionStatus env now' (checkAuctionStatus env now d)) i =
      auction_view (checkAuctionStatus env now d) i"
proof -
  let ?d1 = "checkAuctionStatus env now d"
  have 1: "same_for i ?d1 (endAuction env now i d)"
    using assms by (rule tick_ends)
  then have rows: "filter (\<lambda>x. a_id x = i) (auctions ?d1) =
      filter (\<lambda>x. a_id x = i) (auctions (endAuction env now i d))"
    by (simp add: same_for_def auction_view_def)
  have "status x \<noteq> Scheduled \<and> status x \<noteq> Live" if "x \<in> set (auctions ?d1)" "a_id x = i" for x
  proof -
    from that have "x \<in> set (filter (\<lambda>x. a_id x = i) (auctions ?d1))" by simp
    then have "x \<in> set (auctions (endAuction env now i d))" unfolding rows by simp
    from endAuction_rows_ended[OF assms(2) this that(2)] show ?thesis by simp
  qed
  then have "same_for i (checkAuctionStatus env now' ?d1) ?d1"
    by (intro tick_idle) blast
  with 1 show ?thesis by (simp add: same_for_def)
qed

text \<open>The numbers of the settlement of the example: \<open>'368000000' >= '320000000'\<close>, the
  commission of 5 percent, and the total \<open>'368000000' + 18400000\<close>.\<close>

lemma over_reserve_368:
  "str_less (bigint_column 368000000) (bigint_column 320000000) = False"
  by code_simp

lemma commission_368:
  "math_ceil (js_times (to_number (bigint_column 368000000))
                (Some (round_double (commissionPercentage None / 100)))) = Some 18400000"
  by code_simp

lemma total_368:
  "bigint_param (JS_string (bigint_column 368000000 @ number_string (Some 18400000))) =
     Some 36800000018400000"
  by code_simp

lemma param_price_368: "bigint_param (JS_string (bigint_column 368000000)) = Some 368000000"
  by code_simp

lemma param_commission_368: "bigint_param (JS_number 18400000) = Some 18400000"
  by code_simp

text \<open>The example: the auction with one bid of 368,000,000, a tick at 700,000 and a tick
  at 800,000; one settlement row in all.\<close>

theorem clock_finalizes_once_witness:
  "distinct (map a_id (auctions ex_db1)) \<and>
   getAuctionDetails ex_db1 1 =
     Some (ex_auction\<lparr>current_price := 368000000, current_bid_count := 1\<rparr>) \<and>
   status (ex_auction\<lparr>current_price := 368000000, current_bid_count := 1\<rparr>) = Live \<and>
   effectiveEndTime (ex_auction\<lparr>current_price := 368000000, current_bid_count := 1\<rparr>)
     \<le> 700000 \<and>
   auction_view (checkAuctionStatus None 700000 ex_db1) 1 =
     auction_view (endAuction None 700000 1 ex_db1) 1 \<and>
   auction_view (checkAuctionStatus None 800000 (checkAuctionStatus None 700000 ex_db1)) 1 =
     auction_view (checkAuctionStatus None 700000 ex_db1) 1 \<and>
   transactions (checkAuctionStatus None 800000 (checkAuctionStatus None 700000 ex_db1)) =
     [\<lparr>txn_user_id = 2, txn_auction_id = 1, txn_bid_id = 1, txn_amount = 368000000,
       commission_amount = 18400000, total_amount = 36800000018400000\<rparr>]"
proof -
  have pk: "distinct (map a_id (auctions ex_db1))" by (simp add: example_defs)
  have row: "getAuctionDetails ex_db1 1 =
     Some (ex_auction\<lparr>current_price := 368000000, current_bid_count := 1\<rparr>)"
    by (simp add: query_defs example_defs)
  have live: "status (ex_auction\<lparr>current_price := 368000000, current_bid_count := 1\<rparr>) = Live"
    by (simp add: ex_auction_def)
  have due: "effectiveEndTime (ex_auction\<lparr>current_price := 368000000, current_bid_count := 1\<rparr>)
     \<le> 700000"
    by (simp add: ex_auction_def effectiveEndTime_def)
  have t: "transactions (checkAuctionStatus None 800000 (checkAuctionStatus None 700000 ex_db1)) =
     [\<lparr>txn_user_id = 2, txn_auction_id = 1, txn_bid_id = 1, txn_amount = 368000000,
       commission_amount = 18400000, total_amount = 36800000018400000\<rparr>]"
    by (simp add: checkAuctionStatus_def check_one_def endAuction_def end_result_def
      update_ended_def createTransaction_def Let_def query_defs
      example_defs over_reserve_368 commission_368 total_368 param_price_368 param_commission_368)
  from clock_finalizes_once[OF pk row live due, of None 800000] pk row live due t
  show ?thesis by simp
qed

text \<open>
  \<open>endAuction\<close> itself does not look at \<open>result\<close> or at the status.  Called twice in
  sequence on the example auction, it leaves the auction \<open>sold\<close> after the first call and
  inserts the settlement row a second time.
\<close>

theorem endAuction_twice_counterexample:
  "map result (auctions (endAuction None 700000 1 ex_db1)) = [Some Sold] \<and>
   transactions (endAuction None 700000 1 ex_db1) =
     [\<lparr>txn_user_id = 2, txn_auction_id = 1, txn_bid_id = 1, txn_amount = 368000000,
       commission_amount = 18400000, total_amount = 36800000018400000\<rparr>] \<and>
   transactions (endAuction None 700000 1 (endAuction None 700000 1 ex_db1)) =
     [\<lparr>txn_user_id = 2, txn_auction_id = 1, txn_bid_id = 1, txn_amount = 368000000,
       commission_amount = 18400000, total_amount = 36800000018400000\<rparr>,
      \<lparr>txn_user_id = 2, txn_auction_id = 1, txn_bid_id = 1, txn_amount = 368000000,
       commission_amount = 18400000, total_amount = 36800000018400000\<rparr>]"
  by (simp add: endAuction_def end_result_def update_ended_def createTransaction_def
      Let_def query_defs example_defs over_reserve_368 commission_368
      total_368 param_price_368 param_commission_368)
section \<open>The absolute floor of the REST handler\<close>

lemma minBidIncrement_floor: "100000 \<le> minBidIncrement c"
  by (simp add: minBidIncrement_def)

text \<open>
  Claim C10.  On \<open>POST /api/bids\<close> a request whose amount is below 100,000 gets the
  validation error whatever the database holds (the handler has not read it yet); the
  minimum increment of that path is at least 100,000 at every price; so every bid the
  handler accepts is at least 100,000 above the price it read, whatever the auction's
  \<open>bid_increment_percentage\<close>.  As mounted the handler accepts none: a request that
  passes the validation is answered with status 500.
\<close>

theorem rest_bid_floor:
  "(req_amount req = Some n \<and> n < 100000 \<longrightarrow>
      post_bid now userId req d = Inl Validation_errors) \<and>
   100000 \<le> minBidIncrement c \<and>
   (post_bid now userId req d = Inr (bidId, d') \<longrightarrow>
      (\<exists>auctionId amount a p.
          req_auctionId req = Some auctionId \<and> req_amount req = Some amount \<and>
          live_auction_row d (nat auctionId) = Some (a, p) \<and>
          route_currentPrice a p + 100000 \<le> amount))"
proof (intro conjI impI)
  assume "req_amount req = Some n \<and> n < 100000"
  then show "post_bid now userId req d = Inl Validation_errors"
    by (auto simp: post_bid_def validationResult_def isInt_min_def)
next
  show "100000 \<le> minBidIncrement c" by (rule minBidIncrement_floor)
next
  assume "post_bid now userId req d = Inr (bidId, d')"
  then show "\<exists>auctionId amount a p.
          req_auctionId req = Some auctionId \<and> req_amount req = Some amount \<and>
          live_auction_row d (nat auctionId) = Some (a, p) \<and>
          route_currentPrice a p + 100000 \<le> amount"
    by (simp add: post_bid_refuses)
qed

text \<open>A bid of 99,999 on the example auction; the increment at 1,000,000 and at
  350,000,000, the price the handler would read; and the answer to a bid of 368,000,000,
  which passes the validation.\<close>

theorem rest_bid_floor_witness:
  "req_amount (ex_req 99999) = Some 99999 \<and> (99999 :: int) < 100000 \<and>
   post_bid 0 2 (ex_req 99999) ex_db = Inl Validation_errors \<and>
   100000 \<le> minBidIncrement 1000000 \<and>
   minBidIncrement 1000000 = 100000 \<and> minBidIncrement 350000000 = 17500000 \<and>
   map_option (\<lambda>(a, p). route_currentPrice a p) (live_auction_row ex_db 1) = Some 350000000 \<and>
   post_bid 0 2 (ex_req 368000000) ex_db = Inl Server_error"
proof -
  have low: "req_amount (ex_req 99999) = Some 99999 \<and> (99999 :: int) < 100000"
    by (simp add: ex_req_def)
  from rest_bid_floor[of "ex_req 99999" 99999 0 2 ex_db 1000000 0 ex_db] low
  have r: "post_bid 0 2 (ex_req 99999) ex_db = Inl Validation_errors"
    and f: "100000 \<le> minBidIncrement 1000000" by blast+
  have i: "minBidIncrement 1000000 = 100000" "minBidIncrement 350000000 = 17500000"
    by code_simp+
  have s: "post_bid 0 2 (ex_req 368000000) ex_db = Inl Server_error"
    by (simp add: post_bid_def validationResult_def isInt_min_def ex_req_def)
  have c: "bigint_column 350000000 \<noteq> []"
    by code_simp
  have p: "map_option (\<lambda>(a, p). route_currentPrice a p) (live_auction_row ex_db 1) =
      Some 350000000"
    by (simp add: live_auction_row_def route_currentPrice_def example_defs c)
  from low r f i p s show ?thesis by blast
qed

section \<open>The minimum bid\<close>

lemma less_360_number: "js_less (JS_number 360000000) ''35000000017500000'' = True"
  by code_simp

text \<open>
  Claim C2, at a failing input: the claim's own example.  The example auction is live at
  350,000,000 with an increment of 5 percent.  \<open>calculateMinBid\<close> receives the strings
  \<open>'350000000'\<close> and \<open>'5.00'\<close>, computes the increment 17,500,000 and returns
  \<open>'350000000' + 17500000\<close>, the string \<open>'35000000017500000'\<close>.  A bid of 368,000,000 sent
  as a number is compared with that string as a number and refused, like the bid of
  360,000,000; a bid of 9 sent as the string \<open>'9'\<close> is compared with it as a string, is
  not smaller, and becomes the price.  At 7 percent the increment is the ceiling of the
  double product, 24,500,001.
\<close>

theorem minimum_bid_is_a_concatenation:
  "status ex_auction = Live \<and> current_price ex_auction = 350000000 \<and>
   bid_increment_percentage ex_auction = 5 \<and>
   bigint_column 350000000 = ''350000000'' \<and> decimal_column 5 = ''5.00'' \<and>
   calculateMinBid ''350000000'' ''5.00'' = ''35000000017500000'' \<and>
   placeBid 0 (ex_bid 2 (JS_number 360000000)) ex_db =
     Inl (Bid_must_be_at_least ''35000000017500000'') \<and>
   placeBid 0 (ex_bid 2 (JS_number 368000000)) ex_db =
     Inl (Bid_must_be_at_least ''35000000017500000'') \<and>
   (case placeBid 0 (ex_bid 2 (JS_string ''9'')) ex_db of
      Inl e \<Rightarrow> False
    | Inr (bidId, d') \<Rightarrow>
        map bid_amount (winning_rows d' 1) = [9] \<and> map current_price (auctions d') = [9]) \<and>
   calculateMinBid ''350000000'' ''7.00'' = ''35000000024500001''"
proof -
  have 1: "calculateMinBid ''350000000'' ''5.00'' = ''35000000017500000''"
    and 2: "calculateMinBid ''350000000'' ''7.00'' = ''35000000024500001''"
    and 0: "bigint_column 350000000 = ''350000000''" "decimal_column 5 = ''5.00''"
    by code_simp+
  have 3: "placeBid 0 (ex_bid 2 (JS_number 360000000)) ex_db =
     Inl (Bid_must_be_at_least ''35000000017500000'')"
    by (simp add: placeBid_def query_defs statement_defs example_defs minBid_350
        less_360_number)
  have 4: "placeBid 0 (ex_bid 2 (JS_number 368000000)) ex_db =
     Inl (Bid_must_be_at_least ''35000000017500000'')"
    by (simp add: placeBid_def query_defs statement_defs example_defs minBid_350
        less_368_number)
  have 5: "(case placeBid 0 (ex_bid 2 (JS_string ''9'')) ex_db of
      Inl e \<Rightarrow> False
    | Inr (bidId, d') \<Rightarrow>
        map bid_amount (winning_rows d' 1) = [9] \<and> map current_price (auctions d') = [9])"
    by (simp add: placeBid_def query_defs statement_defs example_defs minBid_350
        less_9_string param_9 winning_rows_def)
  have 6: "status ex_auction = Live \<and> current_price ex_auction = 350000000 \<and>
   bid_increment_percentage ex_auction = 5"
    by (simp add: ex_auction_def)
  from 0 1 2 3 4 5 6 show ?thesis by blast
qed

section \<open>Bids after the deadline and bids of the current leader\<close>

lemma less_4e16_number:
  "js_less (JS_number 40000000000000000) ''35000000017500000'' = False"
  by code_simp

lemma param_4e16: "bigint_param (JS_number 40000000000000000) = Some 40000000000000000"
  by code_simp

text \<open>
  Claim C3, at a failing input.  The example auction is live and its effective end is
  600,000.  At time 600,001, before the next tick of the clock has set the status to
  \<open>ended\<close>, \<open>placeBid\<close>, which tests the status only, accepts a bid of 368,000,000 sent as
  the string \<open>'368000000'\<close>: it records it as the winning bid, makes it the price and moves
  the end of the auction to 900,001.  The caller does get an error, the one of the audit
  log, after the commit.  \<open>placeBid\<close> does the same with the number
  40,000,000,000,000,000, which is not below the concatenated minimum.
\<close>

theorem placeBid_accepts_after_deadline:
  "status ex_auction = Live \<and> effectiveEndTime ex_auction = 600000 \<and>
   (case placeBid 600001 (ex_bid 2 (JS_string ''368000000'')) ex_db of
      Inl e \<Rightarrow> False
    | Inr (bidId, d') \<Rightarrow>
        map bid_amount (winning_rows d' 1) = [368000000] \<and>
        map current_price (auctions d') = [368000000] \<and>
        map effectiveEndTime (auctions d') = [900001]) \<and>
   placeBid_promise 600001 (ex_bid 2 (JS_string ''368000000'')) ex_db =
     Inl (Unknown_column ''data'') \<and>
   (case placeBid 600001 (ex_bid 2 (JS_number 40000000000000000)) ex_db of
      Inl e \<Rightarrow> False
    | Inr (bidId, d') \<Rightarrow>
        map bid_amount (winning_rows d' 1) = [40000000000000000] \<and>
        map effectiveEndTime (auctions d') = [900001])"
  by (simp add: placeBid_promise_def audit_log_fails placeBid_def query_defs statement_defs
      example_defs minBid_350 less_368_string param_368 less_4e16_number param_4e16
      winning_rows_def)

lemma less_400_number: "js_less (JS_number 400000000) ''36800000018400000'' = True"
  by code_simp

text \<open>
  Claim C4, at a failing input.  In \<open>ex_db1\<close> user 2 holds the winning bid of auction 1.
  \<open>placeBid\<close> has no test of the current leader.  A further bid of 400,000,000 by user 2
  sent as a number is refused as too low, by the concatenated minimum.  Sent as a string
  it passes the minimum and enters the transaction, whose third statement clears the flag
  of the standing bid while the new row still carries the cleared flag: the unique key
  fails the statement and the transaction is rolled back, leaving the tables as they were
  and one identifier of \<open>bids\<close> used.  Another user's bid is turned away in the same way.
  Nothing is recorded, and no answer names the leader.
\<close>

theorem placeBid_has_no_leader_test:
  "map bid_user_id (winning_rows ex_db1 1) = [2] \<and>
   placeBid 0 (ex_bid 2 (JS_number 400000000)) ex_db1 =
     Inl (Bid_must_be_at_least ''36800000018400000'') \<and>
   placeBid 0 (ex_bid 2 (JS_string ''400000000'')) ex_db1 = Inl Duplicate_entry \<and>
   bids (after_refusal Duplicate_entry ex_db1) = bids ex_db1 \<and>
   auctions (after_refusal Duplicate_entry ex_db1) = auctions ex_db1 \<and>
   next_bid_id ex_db1 = 2 \<and> next_bid_id (after_refusal Duplicate_entry ex_db1) = 3 \<and>
   placeBid 0 (ex_bid 3 (JS_string ''400000000'')) ex_db1 = Inl Duplicate_entry"
  by (simp add: placeBid_def query_defs statement_defs example_defs minBid_368
      less_400_string less_400_number param_400 winning_rows_def after_refusal_def)

section \<open>Finalization\<close>

lemma minBid_0: "calculateMinBid (bigint_column 0) (decimal_column 5) = ''00''"
  by code_simp

lemma less_1e9_number: "js_less (JS_number 1000000000) ''00'' = False"
  by code_simp

lemma param_1e9: "bigint_param (JS_number 1000000000) = Some 1000000000"
  by code_simp

lemma under_reserve_1e9:
  "str_less (bigint_column 1000000000) (bigint_column 320000000) = True"
  by code_simp

lemma over_reserve_9: "str_less (bigint_column 9) (bigint_column 320000000) = False"
  by code_simp

lemma commission_9:
  "math_ceil (js_times (to_number (bigint_column 9))
                (Some (round_double (commissionPercentage None / 100)))) = Some 1"
  by code_simp

lemma total_9:
  "bigint_param (JS_string (bigint_column 9 @ number_string (Some 1))) = Some 91"
  by code_simp

lemma param_price_9: "bigint_param (JS_string (bigint_column 9)) = Some 9"
  by code_simp

lemma param_commission_9: "bigint_param (JS_number 1) = Some 1"
  by code_simp

text \<open>
  Claim C7, at two failing inputs.  The reserve of the example auction is 320,000,000.
  With \<open>current_price\<close> 0, user 2's bid of 1,000,000,000 is accepted and is the winning
  bid.  \<open>endAuction\<close> compares the strings \<open>'1000000000'\<close> and \<open>'320000000'\<close>: the first is
  the smaller one, so the auction ends with result \<open>reserve_not_met\<close>, without a winning
  bid and without a settlement row, although the final price is above the reserve.
  With \<open>current_price\<close> 350,000,000, the bid of 9 sent as the string \<open>'9'\<close> is accepted;
  \<open>'9'\<close> is not smaller than \<open>'320000000'\<close>, so the auction ends \<open>sold\<close> at 9, below the
  reserve, with a settlement row whose total is \<open>'9' + 1\<close>, that is 91.
\<close>

theorem endAuction_compares_strings:
  "placeBid 0 (ex_bid 2 (JS_number 1000000000)) ex_db_unpriced = Inr (1, ex_db_big) \<and>
   map bid_amount (winning_rows ex_db_big 1) = [1000000000] \<and>
   map current_price (auctions ex_db_big) = [1000000000] \<and>
   map reserve_price (auctions ex_db_big) = [320000000] \<and>
   map status (auctions (endAuction None 600000 1 ex_db_big)) = [Ended] \<and>
   map result (auctions (endAuction None 600000 1 ex_db_big)) = [Some Reserve_not_met] \<and>
   map winning_bid_id (auctions (endAuction None 600000 1 ex_db_big)) = [None] \<and>
   transactions (endAuction None 600000 1 ex_db_big) = [] \<and>
   placeBid 0 (ex_bid 2 (JS_string ''9'')) ex_db = Inr (1, ex_db_9) \<and>
   map current_price (auctions ex_db_9) = [9] \<and>
   map result (auctions (endAuction None 600000 1 ex_db_9)) = [Some Sold] \<and>
   transactions (endAuction None 600000 1 ex_db_9) =
     [\<lparr>txn_user_id = 2, txn_auction_id = 1, txn_bid_id = 1, txn_amount = 9,
       commission_amount = 1, total_amount = 91\<rparr>]"
proof -
  have 1: "placeBid 0 (ex_bid 2 (JS_number 1000000000)) ex_db_unpriced = Inr (1, ex_db_big)"
    by (simp add: placeBid_def query_defs statement_defs example_defs ex_db_unpriced_def
        ex_db_big_def minBid_0 less_1e9_number param_1e9)
  have 2: "map bid_amount (winning_rows ex_db_big 1) = [1000000000] \<and>
   map current_price (auctions ex_db_big) = [1000000000] \<and>
   map reserve_price (auctions ex_db_big) = [320000000]"
    by (simp add: ex_db_big_def ex_auction_def winning_rows_def)
  have 3: "map status (auctions (endAuction None 600000 1 ex_db_big)) = [Ended] \<and>
   map result (auctions (endAuction None 600000 1 ex_db_big)) = [Some Reserve_not_met] \<and>
   map winning_bid_id (auctions (endAuction None 600000 1 ex_db_big)) = [None] \<and>
   transactions (endAuction None 600000 1 ex_db_big) = []"
    by (simp add: endAuction_def end_result_def update_ended_def query_defs example_defs
        ex_db_big_def under_reserve_1e9)
  have 4: "placeBid 0 (ex_bid 2 (JS_string ''9'')) ex_db = Inr (1, ex_db_9)"
    by (simp add: placeBid_def query_defs statement_defs example_defs ex_db_9_def
        minBid_350 less_9_string param_9)
  have 5: "map current_price (auctions ex_db_9) = [9]"
    by (simp add: ex_db_9_def)
  have 6: "map result (auctions (endAuction None 600000 1 ex_db_9)) = [Some Sold] \<and>
   transactions (endAuction None 600000 1 ex_db_9) =
     [\<lparr>txn_user_id = 2, txn_auction_id = 1, txn_bid_id = 1, txn_amount = 9,
       commission_amount = 1, total_amount = 91\<rparr>]"
    by (simp add: endAuction_def end_result_def update_ended_def createTransaction_def
        Let_def query_defs example_defs ex_db_9_def over_reserve_9 commission_9 total_9
        param_price_9 param_commission_9)
  from 1 2 3 4 5 6 show ?thesis by blast
qed

section \<open>The auto-bid resolver\<close>

lemma less_370_string: "js_less (JS_string ''370000000'') ''35000000017500000'' = False"
  by code_simp

lemma param_370: "bigint_param (JS_string ''370000000'') = Some 370000000"
  by code_simp

lemma minBid_370:
  "calculateMinBid (bigint_column 370000000) (decimal_column 5) = ''37000000018500000''"
  by code_simp

lemma next_370: "calculateNextBid 370000000 = 388500000"
  by code_simp

lemma less_388_number: "js_less (JS_number 388500000) ''37000000018500000'' = True"
  by code_simp

lemma param_388: "bigint_param (JS_number 388500000) = Some 388500000"
  by code_simp

lemma key_1_3: "autoBidKey 1 3 = ''auto_1_3''"
  by code_simp

lemma show_1: "show_int 1 = ''1''"
  by code_simp

lemma show_2: "show_int 2 = ''2''"
  by code_simp

text \<open>
  Claim C9, at a failing input: the example of the specification.  User 3 registers an
  agent for auction 1 with ceiling 400,000,000; user 2's bid of 370,000,000 is accepted.
  A pass of the resolver for that bid selects the agent (a pass for auction 2 would
  not) and sends its counter-bid of 388,500,000, a number below the ceiling, to
  \<open>placeBid\<close>, which refuses it as too low against the concatenated minimum
  \<open>'37000000018500000'\<close>; the resolver catches the error and the pass ends with no bid
  placed.  Had the amount passed the minimum, the transaction would have failed on the
  unique key, the auction having a bid already.
\<close>

theorem resolver_places_no_counter_bid:
  "setupAutoBid \<lparr>abd_auctionId = 1, abd_userId = 3, abd_maxAmount = 400000000\<rparr> [] =
     Inr ex_agents \<and>
   placeBid 0 (ex_bid 2 (JS_string ''370000000'')) ex_db = Inr (1, ex_db_370) \<and>
   qualifying 1 370000000 ex_agents = ex_agents \<and>
   qualifying 2 370000000 ex_agents = [] \<and>
   calculateNextBid 370000000 = 388500000 \<and>
   placeBid 0 ex_auto_bid ex_db_370 = Inl (Bid_must_be_at_least ''37000000018500000'') \<and>
   bid_statements 0 (ex_auction\<lparr>current_price := 370000000, current_bid_count := 1\<rparr>) 1 3
     (JS_number 388500000) 0 Auto ex_db_370 = Inl Duplicate_entry \<and>
   processAutoBids 0 1 370000000 ex_agents ex_db_370 = (ex_agents, ex_db_370)"
proof -
  have 1: "setupAutoBid \<lparr>abd_auctionId = 1, abd_userId = 3, abd_maxAmount = 400000000\<rparr> [] =
     Inr ex_agents"
    by (simp add: setupAutoBid_def ex_agents_def key_1_3 del: One_nat_def)
  have 2: "placeBid 0 (ex_bid 2 (JS_string ''370000000'')) ex_db = Inr (1, ex_db_370)"
    by (simp add: placeBid_def query_defs statement_defs example_defs ex_db_370_def
        minBid_350 less_370_string param_370)
  have 3: "qualifying 1 370000000 ex_agents = ex_agents"
    by (simp add: qualifying_def ex_agents_def show_1)
  have q2: "qualifying 2 370000000 ex_agents = []"
    by (simp add: qualifying_def ex_agents_def show_2)
  have 4: "placeBid 0 ex_auto_bid ex_db_370 = Inl (Bid_must_be_at_least ''37000000018500000'')"
    by (simp add: placeBid_def query_defs statement_defs example_defs ex_db_370_def
        ex_auto_bid_def minBid_370 less_388_number)
  have 5: "bid_statements 0 (ex_auction\<lparr>current_price := 370000000, current_bid_count := 1\<rparr>) 1 3
     (JS_number 388500000) 0 Auto ex_db_370 = Inl Duplicate_entry"
    by (simp add: statement_defs example_defs ex_db_370_def param_388)
  have 6: "processAutoBids 0 1 370000000 ex_agents ex_db_370 = (ex_agents, ex_db_370)"
    unfolding processAutoBids_def 3
    by (simp add: ex_agents_def next_370 4[unfolded ex_auto_bid_def] after_refusal_def
        del: One_nat_def)
  from 1 2 3 q2 next_370 4 5 6 show ?thesis by blast
qed

end
